theory Spec2Isabelle
  imports Complex_Main "HOL-Library.Sublist"
begin

section \<open>Python values, strings and exceptions\<close>

text \<open>
  Strings are lists of code points below 256. Exceptions are values: a function that
  can raise returns \<open>exn + 'a\<close>, with \<open>Inl\<close> the exception raised. Every constructor
  of \<open>exn\<close> is a subclass of Python's \<open>Exception\<close>, so \<open>except Exception\<close> catches
  all of them; \<open>HTTPError\<close> is \<open>httpx.HTTPError\<close>, \<open>APIError\<close> an error of the model
  client, \<open>JSONDecodeError\<close> the one of \<open>json.loads\<close>, \<open>PlaywrightError\<close> an error of
  the browser driver. \<open>RuntimeError\<close> is what \<open>httpx\<close> raises for a request on a client that
  has been closed; it is no \<open>httpx.HTTPError\<close>.
\<close>

datatype exn =
    ValueError string
  | TypeError
  | IndexError
  | AttributeError
  | OSError
  | HTTPError
  | APIError
  | JSONDecodeError
  | RuntimeError
  | PlaywrightError

definition bind :: "exn + 'a \<Rightarrow> ('a \<Rightarrow> exn + 'b) \<Rightarrow> exn + 'b" where
  "bind m f = (case m of Inl e \<Rightarrow> Inl e | Inr x \<Rightarrow> f x)"

definition py_index :: "'a list \<Rightarrow> nat \<Rightarrow> exn + 'a" where
  \<comment> \<open>\<open>xs[i]\<close> for a non-negative literal index\<close>
  "py_index xs i = (if i < length xs then Inr (xs ! i) else Inl IndexError)"

definition startswith :: "string \<Rightarrow> string \<Rightarrow> bool" where
  "startswith s p = prefix p s"

fun py_in :: "string \<Rightarrow> string \<Rightarrow> bool" where
  \<comment> \<open>\<open>sub in s\<close>\<close>
  "py_in sub [] = (sub = [])"
| "py_in sub (c # cs) = (prefix sub (c # cs) \<or> py_in sub cs)"

function py_split_aux :: "string \<Rightarrow> string \<Rightarrow> string \<Rightarrow> string list" where
  "py_split_aux sep acc [] = [rev acc]"
| "py_split_aux sep acc (c # cs) =
     (if sep \<noteq> [] \<and> prefix sep (c # cs)
      then rev acc # py_split_aux sep [] (drop (length sep) (c # cs))
      else py_split_aux sep (c # acc) cs)"
  by pat_completeness auto
termination
  by (relation "measure (\<lambda>(sep, acc, s). length s)") auto

definition py_split :: "string \<Rightarrow> string \<Rightarrow> string list" where
  \<comment> \<open>\<open>s.split(sep)\<close>, for the non-empty literal separators of the source\<close>
  "py_split sep s = py_split_aux sep [] s"

definition is_space :: "char \<Rightarrow> bool" where
  \<comment> \<open>\<open>str.isspace\<close> and the regular expression class \<open>\s\<close>, below code point 256\<close>
  "is_space c = (c \<in> set [CHR 0x09, CHR 0x0A, CHR 0x0B, CHR 0x0C, CHR 0x0D, CHR 0x1C,
     CHR 0x1D, CHR 0x1E, CHR 0x1F, CHR 0x20, CHR 0x85, CHR 0xA0])"

definition py_strip :: "string \<Rightarrow> string" where
  "py_strip s = rev (dropWhile is_space (rev (dropWhile is_space s)))"

fun py_words_aux :: "string \<Rightarrow> string \<Rightarrow> string list" where
  "py_words_aux acc [] = (if acc = [] then [] else [rev acc])"
| "py_words_aux acc (c # cs) =
     (if is_space c
      then (if acc = [] then py_words_aux [] cs else rev acc # py_words_aux [] cs)
      else py_words_aux (c # acc) cs)"

definition py_words :: "string \<Rightarrow> string list" where
  \<comment> \<open>\<open>s.split()\<close>: the maximal runs of non-whitespace\<close>
  "py_words s = py_words_aux [] s"

definition py_replace :: "char \<Rightarrow> char \<Rightarrow> string \<Rightarrow> string" where
  \<comment> \<open>\<open>s.replace(a, b)\<close> for one-character strings\<close>
  "py_replace a b s = map (\<lambda>c. if c = a then b else c) s"

definition ascii_lower :: "char \<Rightarrow> char" where
  "ascii_lower c =
     (case map_of (zip ''ABCDEFGHIJKLMNOPQRSTUVWXYZ'' ''abcdefghijklmnopqrstuvwxyz'') c of
        Some l \<Rightarrow> l | None \<Rightarrow> c)"

definition is_digit :: "char \<Rightarrow> bool" where
  "is_digit c = (c \<in> set ''0123456789'')"

fun re_search :: "(string \<Rightarrow> 'a option) \<Rightarrow> string \<Rightarrow> 'a option" where
  \<comment> \<open>\<open>re.search\<close>: the match at the leftmost position where the pattern matches\<close>
  "re_search m [] = m []"
| "re_search m (c # cs) = (case m (c # cs) of Some r \<Rightarrow> Some r | None \<Rightarrow> re_search m cs)"

fun re_sub_aux :: "(string \<Rightarrow> nat option) \<Rightarrow> string \<Rightarrow> nat \<Rightarrow> string \<Rightarrow> string" where
  \<comment> \<open>\<open>re.sub\<close> for a pattern with no empty match: the matcher gives the length of the
      match at the head of the string; the counter skips the rest of a replaced match\<close>
  "re_sub_aux m repl k [] = []"
| "re_sub_aux m repl (Suc k) (c # cs) = re_sub_aux m repl k cs"
| "re_sub_aux m repl 0 (c # cs) =
     (case m (c # cs) of
        Some n \<Rightarrow> repl @ re_sub_aux m repl (n - 1) cs
      | None \<Rightarrow> c # re_sub_aux m repl 0 cs)"

definition b64_alphabet :: string where
  "b64_alphabet = ''ABCDEFGHIJKLMNOPQRSTUVWXYZabcdefghijklmnopqrstuvwxyz0123456789+/''"

fun b64_groups :: "nat list \<Rightarrow> string" where
  "b64_groups [] = []"
| "b64_groups [a] =
     [b64_alphabet ! (a div 4), b64_alphabet ! (a mod 4 * 16), CHR ''='', CHR ''='']"
| "b64_groups [a, b] =
     [b64_alphabet ! (a div 4), b64_alphabet ! (a mod 4 * 16 + b div 16),
      b64_alphabet ! (b mod 16 * 4), CHR ''='']"
| "b64_groups (a # b # c # r) =
     [b64_alphabet ! (a div 4), b64_alphabet ! (a mod 4 * 16 + b div 16),
      b64_alphabet ! (b mod 16 * 4 + c div 64), b64_alphabet ! (c mod 64)] @ b64_groups r"

definition b64encode :: "string \<Rightarrow> string" where
  \<comment> \<open>\<open>base64.standard_b64encode(data).decode("utf-8")\<close>\<close>
  "b64encode bytes = b64_groups (map of_char bytes)"

text \<open>
  Library functions that are not modelled are parameters: \<open>str_title\<close> is \<open>str.title\<close>
  (its case mappings leave the code points below 256), \<open>py_str\<close> is the text an f-string
  inserts for a value, \<open>json_loads\<close> and \<open>json_dumps\<close> are the JSON library.
\<close>

section \<open>The Product entity (src/models/product.py)\<close>

record Product =
  name :: string
  price :: string
  url :: string
  image_url :: string
  retailer :: string
  category :: "string option"
  colors :: "string list"
  sizes :: "string list"
  description :: "string option"

section \<open>The parsed markup\<close>

text \<open>
  \<open>BeautifulSoup(html, "lxml")\<close> is the parser's work; the scrapers are modelled on the
  tree it returns. A node is a string or a tag with its attributes and children; the
  root is the soup object. A string carries its class: \<open>NavigableString\<close> for ordinary
  text, and the subclasses the parser gives to comments, to the content of \<open>script\<close>,
  \<open>style\<close> and \<open>template\<close> tags and the like. An element is a node together with
  its ancestors, nearest first, so that \<open>.parent\<close> is the head of that list and the root
  has none.
\<close>

datatype strtype =
    NavigableString
  | CData
  | Comment
  | Script
  | Stylesheet
  | TemplateString
  | RubyTextString
  | RubyParenthesisString
  | Declaration
  | Doctype
  | ProcessingInstruction

datatype node = Text strtype string | Elem string "(string \<times> string) list" "node list"

type_synonym element = "node list \<times> node"

fun walk :: "node list \<Rightarrow> node \<Rightarrow> element list" where
  \<comment> \<open>a node and everything below it, in document order\<close>
  "walk anc (Text k s) = [(anc, Text k s)]"
| "walk anc (Elem t as cs) = (anc, Elem t as cs) # concat (map (walk (Elem t as cs # anc)) cs)"

definition descendants :: "element \<Rightarrow> element list" where
  "descendants e =
     (case snd e of Text k s \<Rightarrow> []
      | Elem t as cs \<Rightarrow> concat (map (walk (snd e # fst e)) cs))"

definition is_tag :: "string \<Rightarrow> node \<Rightarrow> bool" where
  "is_tag t n = (case n of Text k s \<Rightarrow> False | Elem t' as cs \<Rightarrow> t' = t)"

definition get_attr :: "node \<Rightarrow> string \<Rightarrow> string option" where
  \<comment> \<open>\<open>tag.get(key)\<close>\<close>
  "get_attr n k = (case n of Text c s \<Rightarrow> None | Elem t as cs \<Rightarrow> map_of as k)"

definition attr_contains :: "string \<Rightarrow> string \<Rightarrow> node \<Rightarrow> bool" where
  \<comment> \<open>the selector \<open>[k*="sub"]\<close>\<close>
  "attr_contains k sub n = (case get_attr n k of None \<Rightarrow> False | Some v \<Rightarrow> py_in sub v)"

definition select :: "(element \<Rightarrow> bool) \<Rightarrow> element \<Rightarrow> element list" where
  \<comment> \<open>\<open>tag.select(selector)\<close>: the matching descendants in document order\<close>
  "select sel e = filter sel (descendants e)"

definition select_one :: "(element \<Rightarrow> bool) \<Rightarrow> element \<Rightarrow> element option" where
  "select_one sel e = List.find sel (descendants e)"

definition find_tag :: "string \<Rightarrow> element \<Rightarrow> element option" where
  \<comment> \<open>\<open>tag.find(name)\<close>\<close>
  "find_tag t e = List.find (\<lambda>d. is_tag t (snd d)) (descendants e)"

definition find_string :: "(string \<Rightarrow> bool) \<Rightarrow> element \<Rightarrow> string option" where
  \<comment> \<open>\<open>tag.find(string=pattern)\<close>: the first string below the tag, of any class, that
      the pattern matches\<close>
  "find_string P e =
     (case List.find (\<lambda>d. case snd d of Text k s \<Rightarrow> P s | Elem t as cs \<Rightarrow> False) (descendants e) of
        Some (anc, Text k s) \<Rightarrow> Some s
      | _ \<Rightarrow> None)"

definition string_containers :: "(string \<times> strtype) list" where
  \<comment> \<open>the tags whose strings the HTML tree builder gives a class of their own\<close>
  "string_containers = [(''rt'', RubyTextString), (''rp'', RubyParenthesisString),
     (''style'', Stylesheet), (''script'', Script), (''template'', TemplateString)]"

definition interesting_string_types :: "node \<Rightarrow> strtype list" where
  \<comment> \<open>the classes of string \<open>get_text\<close> of a tag collects\<close>
  "interesting_string_types n =
     (case n of
        Text k s \<Rightarrow> []
      | Elem t as cs \<Rightarrow>
          (case map_of string_containers t of
             Some k \<Rightarrow> [k]
           | None \<Rightarrow> [NavigableString, CData]))"

definition get_text_strip :: "element \<Rightarrow> string" where
  \<comment> \<open>\<open>tag.get_text(strip=True)\<close>: the strings below the tag whose class is exactly one
      the tag collects, each stripped; a comment is skipped, and so is a script under
      any tag but \<open>script\<close>\<close>
  "get_text_strip e =
     concat (map (\<lambda>d. case snd d of
                         Text k s \<Rightarrow>
                           if k \<in> set (interesting_string_types (snd e)) then py_strip s else []
                       | Elem t as cs \<Rightarrow> [])
               (descendants e))"

definition parent_chain :: "element \<Rightarrow> element list" where
  \<comment> \<open>\<open>e.parent\<close>, \<open>e.parent.parent\<close>, ... as elements\<close>
  "parent_chain e = map (\<lambda>i. (drop (Suc i) (fst e), fst e ! i)) [0..<length (fst e)]"

fun up_find :: "nat \<Rightarrow> (element \<Rightarrow> 'a option) \<Rightarrow> element list \<Rightarrow> 'a option" where
  \<comment> \<open>\<open>for _ in range(k)\<close> over the parents: the first parent where \<open>f\<close> finds something\<close>
  "up_find 0 f ps = None"
| "up_find (Suc k) f [] = None"
| "up_find (Suc k) f (p # ps) = (case f p of Some x \<Rightarrow> Some x | None \<Rightarrow> up_find k f ps)"

definition resolve_image :: "string \<Rightarrow> element option \<Rightarrow> exn + string" where
  \<comment> \<open>the image URL of both scrapers: \<open>src\<close>, else \<open>data-src\<close>, else the first URL of
      \<open>srcset\<close>; a relative URL is resolved against the retailer's base\<close>
  "resolve_image base img =
     (case img of
        None \<Rightarrow> Inr []
      | Some i \<Rightarrow>
          let src = (case get_attr (snd i) ''src'' of Some s \<Rightarrow> s | None \<Rightarrow> []);
              dsrc = (case get_attr (snd i) ''data-src'' of Some s \<Rightarrow> s | None \<Rightarrow> []);
              u0 = (if src \<noteq> [] then src else dsrc);
              srcset = (case get_attr (snd i) ''srcset'' of Some s \<Rightarrow> s | None \<Rightarrow> [])
          in bind (if u0 = [] \<and> srcset \<noteq> []
                   then bind (py_index (py_split '','' srcset) 0) (\<lambda>first. py_index (py_words first) 0)
                   else Inr u0)
               (\<lambda>u. Inr (if u \<noteq> [] \<and> \<not> startswith u ''http''
                          then (if startswith u ''//'' then ''https:'' @ u else base @ u)
                          else u)))"

definition find_image :: "element \<Rightarrow> element option" where
  \<comment> \<open>the link's own image, else the first image under one of its three nearest parents\<close>
  "find_image link =
     (case find_tag ''img'' link of
        Some i \<Rightarrow> Some i
      | None \<Rightarrow> up_find 3 (find_tag ''img'') (parent_chain link))"

definition price_class :: "element \<Rightarrow> bool" where
  \<comment> \<open>the selector \<open>[class*="price"], [class*="Price"]\<close>\<close>
  "price_class d = (attr_contains ''class'' ''price'' (snd d) \<or> attr_contains ''class'' ''Price'' (snd d))"

section \<open>The Sezane scraper (src/scrapers/sezane.py)\<close>

definition sezane_BASE_URL :: string where
  "sezane_BASE_URL = ''https://www.sezane.com''"

definition m_product_slug :: "string \<Rightarrow> string option" where
  \<comment> \<open>the pattern \<open>/product/([^/]+)\<close> at the head of the string: group 1\<close>
  "m_product_slug s =
     (if prefix ''/product/'' s
      then (let g = takeWhile (\<lambda>c. c \<noteq> CHR ''/'') (drop 9 s) in if g = [] then None else Some g)
      else None)"

definition m_product_color :: "string \<Rightarrow> string option" where
  \<comment> \<open>the pattern \<open>/product/[^/]+/([^/?#]+)\<close> at the head of the string: group 1\<close>
  "m_product_color s =
     (if prefix ''/product/'' s
      then (let r = drop 9 s;
                slug = takeWhile (\<lambda>c. c \<noteq> CHR ''/'') r;
                r' = dropWhile (\<lambda>c. c \<noteq> CHR ''/'') r;
                g = takeWhile (\<lambda>c. c \<notin> set ''/?#'') (tl r')
            in if slug = [] \<or> r' = [] \<or> g = [] then None else Some g)
      else None)"

definition m_sezane_x :: "string \<Rightarrow> nat option" where
  \<comment> \<open>the pattern \<open>\s+Sezane\s+X\s+\<close>, ignoring case, at the head of the string: the
      length of the match\<close>
  "m_sezane_x s =
     (let w1 = takeWhile is_space s; r1 = dropWhile is_space s;
          w2 = takeWhile is_space (drop 6 r1); r2 = dropWhile is_space (drop 6 r1);
          w3 = takeWhile is_space (drop 1 r2)
      in if w1 \<noteq> [] \<and> map ascii_lower (take 6 r1) = ''sezane'' \<and> w2 \<noteq> []
            \<and> map ascii_lower (take 1 r2) = ''x'' \<and> w3 \<noteq> []
         then Some (length w1 + 6 + length w2 + 1 + length w3)
         else None)"

definition has_dollar_digit :: "string \<Rightarrow> bool" where
  \<comment> \<open>\<open>re.compile(r'\$\d+').search(s)\<close> finds a match\<close>
  "has_dollar_digit s =
     (re_search (\<lambda>t. case t of c # d # _ \<Rightarrow> if c = CHR ''$'' \<and> is_digit d then Some () else None
                       | _ \<Rightarrow> None) s \<noteq> None)"

definition sezane_find_price :: "element \<Rightarrow> string option" where
  \<comment> \<open>one round of the price loop: a text with a dollar amount, else a price-styled tag\<close>
  "sezane_find_price p =
     (case find_string has_dollar_digit p of
        Some s \<Rightarrow> Some (py_strip s)
      | None \<Rightarrow>
          (case select_one price_class p of
             Some d \<Rightarrow> Some (get_text_strip d)
           | None \<Rightarrow> None))"

definition sezane_parse_product_link ::
    "(string \<Rightarrow> string) \<Rightarrow> element \<Rightarrow> string \<Rightarrow> string \<Rightarrow> exn + Product option" where
  "sezane_parse_product_link str_title link base_url full_url =
     (let name' = (case re_search m_product_slug base_url of
                     Some slug \<Rightarrow>
                       re_sub_aux m_sezane_x [CHR 0x20, CHR 0xD7, CHR 0x20] 0
                         (str_title (py_replace (CHR ''-'') (CHR '' '') slug))
                   | None \<Rightarrow> ''Unknown'');
          colors' = (case re_search m_product_color base_url of
                       Some c \<Rightarrow> [str_title (py_replace (CHR ''-'') (CHR '' '') c)]
                     | None \<Rightarrow> [])
      in bind (resolve_image sezane_BASE_URL (find_image link))
           (\<lambda>image.
              let price' = (case up_find 4 sezane_find_price (parent_chain link) of
                              Some p \<Rightarrow> p | None \<Rightarrow> ''N/A'')
              in Inr (Some \<lparr>name = name', price = price', url = base_url, image_url = image,
                           retailer = ''Sezane'', category = None, colors = colors',
                           sizes = [], description = None\<rparr>)))"

text \<open>
  The state of the loop over the links is the list \<open>products\<close> and the set \<open>seen_urls\<close>.
  \<open>sezane_body\<close> is the body of the \<open>try\<close>: it returns the new state, or the exception
  together with the state reached when it was raised. \<open>sezane_step\<close> adds the handler
  \<open>except Exception: continue\<close>.
\<close>

type_synonym scrape_state = "Product list \<times> string set"

definition sezane_normalize :: "string \<Rightarrow> string \<times> string" where
  \<comment> \<open>\<open>(full_url, base_url)\<close> of a href\<close>
  "sezane_normalize href =
     (let full_url = (if startswith href ''http'' then href else sezane_BASE_URL @ href)
      in (full_url, hd (py_split ''#'' full_url)))"

definition sezane_body ::
    "(string \<Rightarrow> string) \<Rightarrow> element \<Rightarrow> scrape_state \<Rightarrow> (exn \<times> scrape_state) + scrape_state" where
  "sezane_body str_title link st =
     (let href = (case get_attr (snd link) ''href'' of Some h \<Rightarrow> h | None \<Rightarrow> [])
      in if href = [] \<or> \<not> py_in ''/product/'' href then Inr st
         else
           let (full_url, base_url) = sezane_normalize href
           in if base_url \<in> snd st then Inr st
              else
                let st' = (fst st, insert base_url (snd st))
                in (case sezane_parse_product_link str_title link base_url full_url of
                      Inl e \<Rightarrow> Inl (e, st')
                    | Inr None \<Rightarrow> Inr st'
                    | Inr (Some p) \<Rightarrow> Inr (fst st' @ [p], snd st')))"

definition sezane_step :: "(string \<Rightarrow> string) \<Rightarrow> scrape_state \<Rightarrow> element \<Rightarrow> scrape_state" where
  "sezane_step str_title st link =
     (case sezane_body str_title link st of Inl (e, st') \<Rightarrow> st' | Inr st' \<Rightarrow> st')"

definition sezane_product_links :: "node \<Rightarrow> element list" where
  \<comment> \<open>\<open>soup.select('a[href*="/product/"]')\<close>\<close>
  "sezane_product_links soup =
     select (\<lambda>d. is_tag ''a'' (snd d) \<and> attr_contains ''href'' ''/product/'' (snd d)) ([], soup)"

definition sezane_parse_links :: "(string \<Rightarrow> string) \<Rightarrow> element list \<Rightarrow> Product list" where
  "sezane_parse_links str_title links = fst (foldl (sezane_step str_title) ([], {}) links)"

definition sezane_parse_products :: "(string \<Rightarrow> string) \<Rightarrow> node \<Rightarrow> Product list" where
  "sezane_parse_products str_title soup = sezane_parse_links str_title (sezane_product_links soup)"

definition sezane_link_url :: "element \<Rightarrow> string option" where
  \<comment> \<open>the normalized URL under which the loop files a link; \<open>None\<close> for a link it skips\<close>
  "sezane_link_url link =
     (let href = (case get_attr (snd link) ''href'' of Some h \<Rightarrow> h | None \<Rightarrow> [])
      in if href = [] \<or> \<not> py_in ''/product/'' href then None
         else Some (snd (sezane_normalize href)))"

definition sezane_build :: "(string \<Rightarrow> string) \<Rightarrow> element \<Rightarrow> exn + Product option" where
  \<comment> \<open>the call of \<open>_parse_product_link\<close> the loop makes for a link it does not skip\<close>
  "sezane_build str_title link =
     (let href = (case get_attr (snd link) ''href'' of Some h \<Rightarrow> h | None \<Rightarrow> [])
      in sezane_parse_product_link str_title link (snd (sezane_normalize href))
           (fst (sezane_normalize href)))"

section \<open>The Arket scraper (src/scrapers/arket.py)\<close>

definition arket_BASE_URL :: string where
  "arket_BASE_URL = ''https://www.arket.com''"

definition m_p_slug :: "string \<Rightarrow> string option" where
  \<comment> \<open>the pattern \<open>/p/([^/?]+)\<close> at the head of the string: group 1\<close>
  "m_p_slug s =
     (if prefix ''/p/'' s
      then (let g = takeWhile (\<lambda>c. c \<notin> set ''/?'') (drop 3 s) in if g = [] then None else Some g)
      else None)"

definition m_html_slug :: "string \<Rightarrow> string option" where
  \<comment> \<open>the pattern \<open>/([^/]+)\.html\<close> at the head of the string: group 1 is greedy, so it
      ends at the last \<open>.html\<close> of the path segment\<close>
  "m_html_slug s =
     (case s of
        [] \<Rightarrow> None
      | c # r \<Rightarrow>
          if c = CHR ''/''
          then (let run = takeWhile (\<lambda>c. c \<noteq> CHR ''/'') r
                in (case List.find (\<lambda>j. prefix ''.html'' (drop j run)) (rev [1..<length run]) of
                      Some j \<Rightarrow> Some (take j run)
                    | None \<Rightarrow> None))
          else None)"

definition arket_name_class :: "element \<Rightarrow> bool" where
  \<comment> \<open>the selector \<open>[class*="name"], [class*="title"], h2, h3, span\<close>\<close>
  "arket_name_class d =
     (attr_contains ''class'' ''name'' (snd d) \<or> attr_contains ''class'' ''title'' (snd d)
      \<or> is_tag ''h2'' (snd d) \<or> is_tag ''h3'' (snd d) \<or> is_tag ''span'' (snd d))"

definition arket_find_price :: "element \<Rightarrow> string option" where
  "arket_find_price p =
     (case select_one price_class p of Some d \<Rightarrow> Some (get_text_strip d) | None \<Rightarrow> None)"

definition arket_parse_product_link ::
    "(string \<Rightarrow> string) \<Rightarrow> element \<Rightarrow> string \<Rightarrow> exn + Product option" where
  "arket_parse_product_link str_title link url' =
     (let link_text = get_text_strip link;
          name1 = (if link_text \<noteq> [] \<and> length link_text > 3 \<and> length link_text < 100
                   then Some link_text else None);
          name2 = (if name1 = None \<or> name1 = Some []
                   then (case select_one arket_name_class link of
                           Some d \<Rightarrow> Some (get_text_strip d)
                         | None \<Rightarrow> name1)
                   else name1);
          fallback = (case (case re_search m_p_slug url' of
                              Some g \<Rightarrow> Some g
                            | None \<Rightarrow> re_search m_html_slug url') of
                        Some g \<Rightarrow> str_title (py_replace (CHR ''-'') (CHR '' '') g)
                      | None \<Rightarrow> ''Unknown'');
          name3 = (case name2 of
                     None \<Rightarrow> fallback
                   | Some n \<Rightarrow> if n = [] then fallback else n)
      in bind (resolve_image arket_BASE_URL (find_image link))
           (\<lambda>image.
              let price' = (case up_find 4 arket_find_price (parent_chain link) of
                              Some p \<Rightarrow> p | None \<Rightarrow> ''N/A'')
              in Inr (Some \<lparr>name = name3, price = price', url = url', image_url = image,
                           retailer = ''Arket'', category = None, colors = [],
                           sizes = [], description = None\<rparr>)))"

definition arket_normalize :: "string \<Rightarrow> string \<times> string" where
  \<comment> \<open>\<open>(full_url, base_url)\<close> of a href\<close>
  "arket_normalize href =
     (let full_url = (if startswith href ''http'' then href else arket_BASE_URL @ href)
      in (full_url, hd (py_split ''?'' full_url)))"

definition arket_body ::
    "(string \<Rightarrow> string) \<Rightarrow> element \<Rightarrow> scrape_state \<Rightarrow> (exn \<times> scrape_state) + scrape_state" where
  "arket_body str_title link st =
     (let href = (case get_attr (snd link) ''href'' of Some h \<Rightarrow> h | None \<Rightarrow> [])
      in if href = [] \<or> (\<not> py_in ''/p/'' href \<and> \<not> py_in ''/product'' href) then Inr st
         else
           let (full_url, base_url) = arket_normalize href
           in if base_url \<in> snd st then Inr st
              else
                let st' = (fst st, insert base_url (snd st))
                in (case arket_parse_product_link str_title link base_url of
                      Inl e \<Rightarrow> Inl (e, st')
                    | Inr None \<Rightarrow> Inr st'
                    | Inr (Some p) \<Rightarrow> Inr (fst st' @ [p], snd st')))"

definition arket_step :: "(string \<Rightarrow> string) \<Rightarrow> scrape_state \<Rightarrow> element \<Rightarrow> scrape_state" where
  "arket_step str_title st link =
     (case arket_body str_title link st of Inl (e, st') \<Rightarrow> st' | Inr st' \<Rightarrow> st')"

definition arket_product_links :: "node \<Rightarrow> element list" where
  \<comment> \<open>\<open>soup.select('a[href*="/p/"], a[href*="/product"]')\<close>, and when that is empty
      \<open>soup.select('[class*="product"] a[href]')\<close>\<close>
  "arket_product_links soup =
     (let links = select (\<lambda>d. is_tag ''a'' (snd d)
                    \<and> (attr_contains ''href'' ''/p/'' (snd d) \<or> attr_contains ''href'' ''/product'' (snd d)))
                    ([], soup)
      in if links = []
         then select (\<lambda>d. is_tag ''a'' (snd d) \<and> get_attr (snd d) ''href'' \<noteq> None
                  \<and> list_ex (attr_contains ''class'' ''product'') (fst d)) ([], soup)
         else links)"

definition arket_parse_links :: "(string \<Rightarrow> string) \<Rightarrow> element list \<Rightarrow> Product list" where
  "arket_parse_links str_title links = fst (foldl (arket_step str_title) ([], {}) links)"

definition arket_parse_products :: "(string \<Rightarrow> string) \<Rightarrow> node \<Rightarrow> Product list" where
  "arket_parse_products str_title soup = arket_parse_links str_title (arket_product_links soup)"

definition arket_link_url :: "element \<Rightarrow> string option" where
  \<comment> \<open>the normalized URL under which the loop files a link; \<open>None\<close> for a link it skips\<close>
  "arket_link_url link =
     (let href = (case get_attr (snd link) ''href'' of Some h \<Rightarrow> h | None \<Rightarrow> [])
      in if href = [] \<or> (\<not> py_in ''/p/'' href \<and> \<not> py_in ''/product'' href) then None
         else Some (snd (arket_normalize href)))"

definition arket_build :: "(string \<Rightarrow> string) \<Rightarrow> element \<Rightarrow> exn + Product option" where
  \<comment> \<open>the call of \<open>_parse_product_link\<close> the loop makes for a link it does not skip\<close>
  "arket_build str_title link =
     (let href = (case get_attr (snd link) ''href'' of Some h \<Rightarrow> h | None \<Rightarrow> [])
      in arket_parse_product_link str_title link (snd (arket_normalize href)))"

definition dedup_step ::
    "('l \<Rightarrow> string option) \<Rightarrow> ('l \<Rightarrow> Product option) \<Rightarrow> scrape_state \<Rightarrow> 'l \<Rightarrow> scrape_state" where
  \<comment> \<open>the shape both loops share, used to reason about them: a link is filed under its
      key unless the key was seen, and contributes the product built from it, if any\<close>
  "dedup_step key build st l =
     (case key l of
        None \<Rightarrow> st
      | Some k \<Rightarrow>
          if k \<in> snd st then st
          else (case build l of
                  None \<Rightarrow> (fst st, insert k (snd st))
                | Some p \<Rightarrow> (fst st @ [p], insert k (snd st))))"

definition built :: "exn + Product option \<Rightarrow> Product option" where
  \<comment> \<open>what a link contributes: nothing when the parse raised or returned \<open>None\<close>\<close>
  "built r = (case r of Inl e \<Rightarrow> None | Inr None \<Rightarrow> None | Inr (Some p) \<Rightarrow> Some p)"

section \<open>JSON values and the outside world\<close>

text \<open>
  A parsed JSON document. A float is the rational it denotes (Python compares an int with
  a float exactly); the literals \<open>NaN\<close> and \<open>Infinity\<close>, which \<open>json.loads\<close> accepts
  beyond the standard, are not modelled. An object is the list of the items of the dict.
\<close>

datatype json =
    JNull
  | JBool bool
  | JInt int
  | JFloat rat
  | JStr string
  | JArr "json list"
  | JObj "(string \<times> json) list"

definition truthy :: "json \<Rightarrow> bool" where
  \<comment> \<open>the truth value of a value in \<open>if v:\<close>\<close>
  "truthy v =
     (case v of JNull \<Rightarrow> False | JBool b \<Rightarrow> b | JInt i \<Rightarrow> i \<noteq> 0 | JFloat r \<Rightarrow> r \<noteq> 0
      | JStr s \<Rightarrow> s \<noteq> [] | JArr xs \<Rightarrow> xs \<noteq> [] | JObj kvs \<Rightarrow> kvs \<noteq> [])"

definition dict_get :: "(string \<times> json) list \<Rightarrow> string \<Rightarrow> json \<Rightarrow> json" where
  \<comment> \<open>\<open>d.get(key, default)\<close>\<close>
  "dict_get kvs k d = (case map_of kvs k of None \<Rightarrow> d | Some v \<Rightarrow> v)"

definition num_of :: "json \<Rightarrow> rat option" where
  \<comment> \<open>the number a value is in a comparison; \<open>True\<close> is 1 and \<open>False\<close> is 0\<close>
  "num_of v =
     (case v of JInt i \<Rightarrow> Some (of_int i) | JFloat r \<Rightarrow> Some r
      | JBool b \<Rightarrow> Some (if b then 1 else 0) | _ \<Rightarrow> None)"

definition py_ge :: "json \<Rightarrow> int \<Rightarrow> exn + bool" where
  \<comment> \<open>\<open>v >= k\<close> for an int \<open>k\<close>: a value that is not a number raises TypeError\<close>
  "py_ge v k = (case num_of v of None \<Rightarrow> Inl TypeError | Some r \<Rightarrow> Inr (of_int k \<le> r))"

fun join :: "string \<Rightarrow> string list \<Rightarrow> string" where
  "join sep [] = []"
| "join sep [x] = x"
| "join sep (x # y # ys) = x @ sep @ join sep (y # ys)"

definition is_JStr :: "json \<Rightarrow> bool" where
  "is_JStr v = (case v of JStr s \<Rightarrow> True | _ \<Rightarrow> False)"

definition py_join :: "string \<Rightarrow> json \<Rightarrow> exn + string" where
  \<comment> \<open>\<open>sep.join(v)\<close>: \<open>v\<close> must be an iterable of strings (a list of strings, a string, or
      a dict, which gives its keys)\<close>
  "py_join sep v =
     (case v of
        JArr xs \<Rightarrow>
          if list_all is_JStr xs
          then Inr (join sep (map (\<lambda>x. case x of JStr s \<Rightarrow> s | _ \<Rightarrow> []) xs))
          else Inl TypeError
      | JStr s \<Rightarrow> Inr (join sep (map (\<lambda>c. [c]) s))
      | JObj kvs \<Rightarrow> Inr (join sep (map fst kvs))
      | _ \<Rightarrow> Inl TypeError)"

definition py_slice_to :: "int \<Rightarrow> 'a list \<Rightarrow> 'a list" where
  \<comment> \<open>\<open>xs[:n]\<close>: a negative \<open>n\<close> counts from the end\<close>
  "py_slice_to n xs = (if 0 \<le> n then take (nat n) xs else take (length xs - nat (- n)) xs)"

datatype fs_entry = File string | Dir

record http_response =
  status_code :: nat
  content_type :: "string option"
  body :: string

datatype block = Image string string | Prompt "string list"

text \<open>
  A content block of a request to the model is an image (media type, base64 data) or the
  text block; the fixed wording of a prompt is left out, and the text block is the list of
  the values the source interpolates into it.

  \<open>env\<close> is everything outside the program: the files, the HTTP server, the model, and
  the library functions that are not modelled. \<open>json_loads\<close> returns \<open>None\<close> where
  \<open>json.loads\<close> raises JSONDecodeError; \<open>messages_create\<close> is the call of the model
  followed by \<open>response.content[0].text\<close>. For the browser, \<open>browser_available\<close> is the
  flag \<open>BROWSER_AVAILABLE\<close>, \<open>init_browser\<close> and \<open>close_browser\<close> are the exception
  \<open>_init_browser\<close> and \<open>_close_browser\<close> end with, if any, and \<open>browser_page\<close> is what
  the steps on the page (open, navigate, scroll, read the content, close) give for a URL.
\<close>

record env =
  files :: "string \<Rightarrow> fs_entry option"
  http_get :: "string \<Rightarrow> exn + http_response"
  messages_create :: "block list \<Rightarrow> exn + string"
  parse_html :: "string \<Rightarrow> node"
  json_loads :: "string \<Rightarrow> json option"
  json_dumps :: "json \<Rightarrow> string"
  py_str :: "json \<Rightarrow> string"
  str_title :: "string \<Rightarrow> string"
  browser_available :: bool
  init_browser :: "exn option"
  browser_page :: "string \<Rightarrow> exn + string"
  close_browser :: "exn option"

definition is_success :: "http_response \<Rightarrow> bool" where
  \<comment> \<open>\<open>raise_for_status\<close> raises unless the status is 2xx\<close>
  "is_success r = (200 \<le> status_code r \<and> status_code r < 300)"

definition strip_markdown :: "string \<Rightarrow> exn + string" where
  \<comment> \<open>the clean-up of markdown fencing, the same lines in the analyzer and the matcher\<close>
  "strip_markdown response_text =
     (if py_in ''```json'' response_text
      then bind (py_index (py_split ''```json'' response_text) 1)
             (\<lambda>a. py_index (py_split ''```'' a) 0)
      else if py_in ''```'' response_text
      then bind (py_index (py_split ''```'' response_text) 1)
             (\<lambda>a. py_index (py_split ''```'' a) 0)
      else Inr response_text)"

section \<open>The static scraper (src/scrapers/base.py)\<close>

definition fetch_page :: "env \<Rightarrow> string \<Rightarrow> exn + string option" where
  \<comment> \<open>only \<open>httpx.HTTPError\<close> is caught\<close>
  "fetch_page w u =
     (case http_get w u of
        Inl e \<Rightarrow> if e = HTTPError then Inr None else Inl e
      | Inr r \<Rightarrow> if is_success r then Inr (Some (body r)) else Inr None)"

definition sezane_get_new_arrivals_url :: string where
  "sezane_get_new_arrivals_url = sezane_BASE_URL @ ''/us-en/new-in''"

definition sezane_scrape_new_arrivals :: "env \<Rightarrow> exn + Product list" where
  \<comment> \<open>\<open>BaseScraper.scrape_new_arrivals\<close> on the Sezane scraper\<close>
  "sezane_scrape_new_arrivals w =
     bind (fetch_page w sezane_get_new_arrivals_url)
       (\<lambda>html. case html of
                  None \<Rightarrow> Inr []
                | Some h \<Rightarrow>
                    if h \<noteq> [] then Inr (sezane_parse_products (str_title w) (parse_html w h))
                    else Inr [])"

section \<open>The browser scraper (src/scrapers/browser.py, src/scrapers/arket.py)\<close>



definition arket_get_new_arrivals_url :: string where
  "arket_get_new_arrivals_url = arket_BASE_URL @ ''/en-ww/women/new-arrivals/''"





section \<open>The style profile and the analyzer (src/vision/style_analyzer.py)\<close>

text \<open>
  The dataclass declares seven lists of strings and a string, and checks none of it:
  \<open>from_dict\<close> stores whatever the document holds. So a field is a JSON value.
\<close>

record StyleProfile =
  color_palette :: json
  preferred_styles :: json
  silhouettes :: json
  patterns :: json
  materials :: json
  aesthetics :: json
  avoid :: json
  summary :: json

definition to_dict :: "StyleProfile \<Rightarrow> (string \<times> json) list" where
  "to_dict p =
     [(''color_palette'', color_palette p),
      (''preferred_styles'', preferred_styles p),
      (''silhouettes'', silhouettes p),
      (''patterns'', patterns p),
      (''materials'', materials p),
      (''aesthetics'', aesthetics p),
      (''avoid'', avoid p),
      (''summary'', summary p)]"

definition field_names :: "string list" where
  "field_names = [''color_palette'', ''preferred_styles'', ''silhouettes'', ''patterns'',
     ''materials'', ''aesthetics'', ''avoid'', ''summary'']"

definition from_dict :: "json \<Rightarrow> exn + StyleProfile" where
  \<comment> \<open>\<open>cls(**data)\<close>: TypeError unless \<open>data\<close> is a dict whose keys are field names; a
      field that is missing gets its default\<close>
  "from_dict data =
     (case data of
        JObj kvs \<Rightarrow>
          if list_all (\<lambda>k. k \<in> set field_names) (map fst kvs)
          then Inr \<lparr>color_palette = dict_get kvs ''color_palette'' (JArr []),
                    preferred_styles = dict_get kvs ''preferred_styles'' (JArr []),
                    silhouettes = dict_get kvs ''silhouettes'' (JArr []),
                    patterns = dict_get kvs ''patterns'' (JArr []),
                    materials = dict_get kvs ''materials'' (JArr []),
                    aesthetics = dict_get kvs ''aesthetics'' (JArr []),
                    avoid = dict_get kvs ''avoid'' (JArr []),
                    summary = dict_get kvs ''summary'' (JStr [])\<rparr>
          else Inl TypeError
      | _ \<Rightarrow> Inl TypeError)"

definition unparsed_profile :: StyleProfile where
  \<comment> \<open>\<open>StyleProfile(summary="Could not parse style profile")\<close>\<close>
  "unparsed_profile =
     \<lparr>color_palette = JArr [], preferred_styles = JArr [], silhouettes = JArr [],
      patterns = JArr [], materials = JArr [], aesthetics = JArr [], avoid = JArr [],
      summary = JStr ''Could not parse style profile''\<rparr>"

definition path_exists :: "env \<Rightarrow> string \<Rightarrow> bool" where
  "path_exists w p = (files w p \<noteq> None)"

definition open_read :: "env \<Rightarrow> string \<Rightarrow> exn + string" where
  \<comment> \<open>\<open>open(path).read()\<close>: OSError for a missing path and for a directory\<close>
  "open_read w p = (case files w p of Some (File b) \<Rightarrow> Inr b | _ \<Rightarrow> Inl OSError)"

definition open_write :: "env \<Rightarrow> string \<Rightarrow> string \<Rightarrow> exn + env" where
  \<comment> \<open>\<open>open(path, "w").write(text)\<close>: OSError for a directory\<close>
  "open_write w p t =
     (case files w p of
        Some Dir \<Rightarrow> Inl OSError
      | _ \<Rightarrow> Inr (w\<lparr>files := (files w)(p \<mapsto> File t)\<rparr>))"

definition latin1_lower :: "char \<Rightarrow> char" where
  \<comment> \<open>\<open>str.lower\<close> on one code point below 256\<close>
  "latin1_lower c =
     (let n = (of_char c :: nat)
      in if (65 \<le> n \<and> n \<le> 90) \<or> (192 \<le> n \<and> n \<le> 222 \<and> n \<noteq> 215) then char_of (n + 32) else c)"

definition path_suffix :: "string \<Rightarrow> string" where
  \<comment> \<open>\<open>path.suffix\<close>: from the last dot of the final component, unless that dot is its
      first or its last character\<close>
  "path_suffix p =
     (let n = rev (takeWhile (\<lambda>c. c \<noteq> CHR ''/'') (rev p));
          ext = rev (takeWhile (\<lambda>c. c \<noteq> CHR ''.'') (rev n))
      in if CHR ''.'' \<in> set n \<and> ext \<noteq> [] \<and> length ext + 1 < length n then CHR ''.'' # ext else [])"

definition media_types :: "(string \<times> string) list" where
  "media_types = [(''.jpg'', ''image/jpeg''), (''.jpeg'', ''image/jpeg''), (''.png'', ''image/png''),
     (''.gif'', ''image/gif''), (''.webp'', ''image/webp'')]"

definition media_type_of :: "string \<Rightarrow> string" where
  \<comment> \<open>\<open>media_types.get(path.suffix.lower(), "image/jpeg")\<close>\<close>
  "media_type_of p =
     (case map_of media_types (map latin1_lower (path_suffix p)) of
        Some m \<Rightarrow> m | None \<Rightarrow> ''image/jpeg'')"

definition load_image :: "env \<Rightarrow> string \<Rightarrow> exn + string \<times> string" where
  \<comment> \<open>\<open>_load_image\<close>: \<open>(data, media_type)\<close>\<close>
  "load_image w p =
     (let media_type = media_type_of p
      in bind (open_read w p) (\<lambda>bytes. Inr (b64encode bytes, media_type)))"

fun load_images :: "env \<Rightarrow> string list \<Rightarrow> exn + block list" where
  \<comment> \<open>the loop that builds \<open>content\<close>: a path that does not exist is skipped\<close>
  "load_images w [] = Inr []"
| "load_images w (p # ps) =
     (if \<not> path_exists w p then load_images w ps
      else bind (load_image w p)
             (\<lambda>(data, media_type).
                bind (load_images w ps) (\<lambda>rest. Inr (Image media_type data # rest))))"

definition parse_profile_reply :: "env \<Rightarrow> string \<Rightarrow> exn + StyleProfile" where
  \<comment> \<open>the lines after the model call: only JSONDecodeError is caught\<close>
  "parse_profile_reply w response_text =
     bind (strip_markdown response_text)
       (\<lambda>cleaned.
          case json_loads w (py_strip cleaned) of
            None \<Rightarrow> Inr unparsed_profile
          | Some data \<Rightarrow> from_dict data)"

definition analyze_style_images :: "env \<Rightarrow> string list \<Rightarrow> exn + StyleProfile" where
  "analyze_style_images w image_paths =
     (if image_paths = [] then Inl (ValueError ''No images provided'')
      else bind (load_images w (take 10 image_paths))
        (\<lambda>content.
           if content = [] then Inl (ValueError ''No valid images found'')
           else bind (messages_create w (content @ [Prompt []])) (parse_profile_reply w)))"

definition readable_image :: "env \<Rightarrow> string \<Rightarrow> block option" where
  \<comment> \<open>the image block a path contributes when it is a file that can be read\<close>
  "readable_image w p =
     (case files w p of
        Some (File bytes) \<Rightarrow> Some (Image (media_type_of p) (b64encode bytes))
      | _ \<Rightarrow> None)"

definition save_profile :: "env \<Rightarrow> StyleProfile \<Rightarrow> string \<Rightarrow> exn + env" where
  "save_profile w profile path = open_write w path (json_dumps w (JObj (to_dict profile)))"

definition load_profile :: "env \<Rightarrow> string \<Rightarrow> exn + StyleProfile" where
  "load_profile w path =
     bind (open_read w path)
       (\<lambda>t. case json_loads w t of None \<Rightarrow> Inl JSONDecodeError | Some data \<Rightarrow> from_dict data)"

section \<open>The product matcher (src/vision/product_matcher.py)\<close>

text \<open>
  The fields of a result are what \<open>result.get\<close> returned: values of the model's JSON
  object, unchecked.
\<close>

record MatchResult =
  product :: Product
  score :: json
  reasoning :: json
  style_notes :: json
  suggested_pairings :: json

definition fetch_image :: "env \<Rightarrow> string \<Rightarrow> (string \<times> string) option" where
  \<comment> \<open>\<open>_fetch_image\<close>: every exception is caught and gives \<open>None\<close>\<close>
  "fetch_image w u =
     (case http_get w u of
        Inl e \<Rightarrow> None
      | Inr r \<Rightarrow>
          if \<not> is_success r then None
          else
            let ct = (case content_type r of None \<Rightarrow> ''image/jpeg'' | Some c \<Rightarrow> c)
            in (case (if py_in '';'' ct then py_index (py_split '';'' ct) 0 else Inr ct) of
                  Inl e \<Rightarrow> None
                | Inr ct' \<Rightarrow>
                    if \<not> startswith ct' ''image/'' then None
                    else Some (b64encode (body r), ct')))"

definition context_part :: "string \<Rightarrow> json \<Rightarrow> exn + string list" where
  \<comment> \<open>\<open>if v: parts.append(f"label{', '.join(v)}")\<close>\<close>
  "context_part label v =
     (if truthy v then bind (py_join '', '' v) (\<lambda>s. Inr [label @ s]) else Inr [])"

definition build_profile_context :: "env \<Rightarrow> StyleProfile \<Rightarrow> exn + string" where
  "build_profile_context w p =
     bind (Inr (if truthy (summary p) then [''Style Summary: '' @ py_str w (summary p)] else []))
       (\<lambda>p0. bind (context_part ''Preferred Colors: '' (color_palette p))
       (\<lambda>p1. bind (context_part ''Style Categories: '' (preferred_styles p))
       (\<lambda>p2. bind (context_part ''Preferred Silhouettes: '' (silhouettes p))
       (\<lambda>p3. bind (context_part ''Preferred Patterns: '' (patterns p))
       (\<lambda>p4. bind (context_part ''Preferred Materials: '' (materials p))
       (\<lambda>p5. bind (context_part ''Aesthetic: '' (aesthetics p))
       (\<lambda>p6. bind (context_part ''Tends to Avoid: '' (avoid p))
       (\<lambda>p7. Inr (join [CHR 0x0A] (p0 @ p1 @ p2 @ p3 @ p4 @ p5 @ p6 @ p7))))))))))"

definition model_match :: "env \<Rightarrow> Product \<Rightarrow> block list \<Rightarrow> exn + MatchResult" where
  \<comment> \<open>the body of the \<open>try\<close> of \<open>match_product\<close>; \<open>result.get\<close> raises AttributeError
      when the parsed document is not a dict\<close>
  "model_match w prd content =
     bind (messages_create w content)
       (\<lambda>response_text.
          bind (strip_markdown response_text)
            (\<lambda>cleaned.
               case json_loads w (py_strip cleaned) of
                 None \<Rightarrow> Inl JSONDecodeError
               | Some (JObj kvs) \<Rightarrow>
                   Inr \<lparr>product = prd,
                        score = dict_get kvs ''score'' (JInt 0),
                        reasoning = dict_get kvs ''reasoning'' (JStr []),
                        style_notes = dict_get kvs ''style_notes'' (JStr []),
                        suggested_pairings = dict_get kvs ''suggested_pairings'' (JArr [])\<rparr>
               | Some _ \<Rightarrow> Inl AttributeError))"

definition match_content :: "Product \<Rightarrow> string \<Rightarrow> string \<Rightarrow> string \<Rightarrow> block list" where
  \<comment> \<open>the request for one product: its image and the prompt\<close>
  "match_content prd data media_type profile_context =
     (let colors_text = (if colors prd \<noteq> [] then join '', '' (colors prd)
                         else ''Not specified'')
      in [Image media_type data, Prompt [profile_context, name prd, price prd, colors_text]])"

definition match_product :: "env \<Rightarrow> StyleProfile \<Rightarrow> Product \<Rightarrow> exn + MatchResult option" where
  "match_product w profile prd =
     (if image_url prd = [] then Inr None
      else
        (case fetch_image w (image_url prd) of
           None \<Rightarrow> Inr None
         | Some (data, media_type) \<Rightarrow>
             bind (build_profile_context w profile)
               (\<lambda>profile_context.
                  case model_match w prd (match_content prd data media_type profile_context) of
                    Inl e \<Rightarrow> Inr None
                  | Inr r \<Rightarrow> Inr (Some r))))"

definition dispatched :: "Product list \<Rightarrow> int option \<Rightarrow> Product list" where
  \<comment> \<open>the products a scoring task is submitted for: those with an image, cut to
      \<open>limit\<close> when \<open>limit\<close> is truthy\<close>
  "dispatched products limit =
     (let products_with_images = filter (\<lambda>p. image_url p \<noteq> []) products
      in (case limit of
            None \<Rightarrow> products_with_images
          | Some n \<Rightarrow> if n \<noteq> 0 then py_slice_to n products_with_images else products_with_images))"

definition collect :: "int \<Rightarrow> exn + MatchResult option \<Rightarrow> MatchResult list" where
  \<comment> \<open>one round of the loop over the completed futures: what it appends to \<open>results\<close>.
      An exception of the task, or of the comparison, is caught and appends nothing\<close>
  "collect min_score outcome =
     (case outcome of
        Inl e \<Rightarrow> []
      | Inr None \<Rightarrow> []
      | Inr (Some r) \<Rightarrow>
          (case py_ge (score r) min_score of
             Inl e \<Rightarrow> []
           | Inr b \<Rightarrow> if b then [r] else []))"

definition score_key :: "MatchResult \<Rightarrow> rat" where
  "score_key r = (case num_of (score r) of Some q \<Rightarrow> q | None \<Rightarrow> 0)"

definition sort_by_score :: "MatchResult list \<Rightarrow> exn + MatchResult list" where
  \<comment> \<open>\<open>results.sort(key=lambda r: r.score, reverse=True)\<close>: stable, equal scores keep
      their order. The scores of \<open>results\<close> are numbers; a list with another score
      is given TypeError here\<close>
  "sort_by_score rs =
     (if list_all (\<lambda>r. num_of (score r) \<noteq> None) rs
      then Inr (rev (sort_key score_key (rev rs)))
      else Inl TypeError)"

text \<open>
  The futures complete in an order the program does not control: \<open>completion\<close> is that
  order, a function that rearranges the list of the submitted tasks.
  \<open>ThreadPoolExecutor\<close> raises ValueError unless \<open>max_workers\<close> is positive.
\<close>

definition match_products ::
    "env \<Rightarrow> StyleProfile \<Rightarrow> (Product list \<Rightarrow> Product list) \<Rightarrow> Product list \<Rightarrow> int \<Rightarrow> int
       \<Rightarrow> int option \<Rightarrow> exn + MatchResult list" where
  "match_products w profile completion products min_score max_workers limit =
     (let tasks = dispatched products limit
      in if max_workers \<le> 0 then Inl (ValueError ''max_workers must be greater than 0'')
         else sort_by_score
                (concat (map (\<lambda>p. collect min_score (match_product w profile p))
                           (completion tasks))))"

section \<open>Example inputs\<close>

text \<open>
  \<open>soup3\<close>: three links to one product that differ in the fragment only, the first two
  with an image of their own. \<open>soup_query\<close>: a link with a query string and then a
  fragment, and a link with a fragment that holds a question mark.
\<close>

definition soup3 :: node where
  "soup3 = Elem ''[document]'' []
     [Elem ''div'' [(''class'', ''card'')]
        [Elem ''a'' [(''href'', ''/product/polo-shirt/navy#size-s'')] [Elem ''img'' [(''src'', ''//img.example/a.jpg'')] []],
         Elem ''a'' [(''href'', ''/product/polo-shirt/navy#size-m'')] [Elem ''img'' [(''src'', ''//img.example/b.jpg'')] []],
         Elem ''a'' [(''href'', ''/product/polo-shirt/navy#size-l'')] [],
         Elem ''span'' [] [Text NavigableString '' $95 '']]]"

definition soup_query :: node where
  "soup_query = Elem ''[document]'' []
     [Elem ''a'' [(''href'', ''/product/polo-shirt?utm=mail#size-s'')] [],
      Elem ''a'' [(''href'', ''/p/cotton-shirt#main?ref=home'')] [Text NavigableString ''Cotton shirt'']]"

definition soup_utm :: node where
  "soup_utm = Elem ''[document]'' []
     [Elem ''a'' [(''href'', ''/product/polo-shirt/navy?utm=mail'')] [],
      Elem ''a'' [(''href'', ''/product/polo-shirt/navy?utm=home'')] []]"

text \<open>
  \<open>ascii_title\<close> is \<open>str.title\<close> on ASCII text: the first letter of every run of letters
  in upper case, the others in lower case.
\<close>

definition ascii_upper :: "char \<Rightarrow> char" where
  "ascii_upper c =
     (case map_of (zip ''abcdefghijklmnopqrstuvwxyz'' ''ABCDEFGHIJKLMNOPQRSTUVWXYZ'') c of
        Some u \<Rightarrow> u | None \<Rightarrow> c)"

fun title_aux :: "bool \<Rightarrow> string \<Rightarrow> string" where
  "title_aux prev [] = []"
| "title_aux prev (c # cs) =
     (if c \<in> set ''abcdefghijklmnopqrstuvwxyz''
      then (if prev then c else ascii_upper c) # title_aux True cs
      else if c \<in> set ''ABCDEFGHIJKLMNOPQRSTUVWXYZ''
      then (if prev then ascii_lower c else c) # title_aux True cs
      else c # title_aux False cs)"

definition ascii_title :: "string \<Rightarrow> string" where
  "ascii_title s = title_aux False s"

text \<open>
  An example world. The model is asked about a product by its name and replies with a
  score object (fenced for the coat), with an empty object for the shirt, and fails for
  any other request, the analyzer's included. \<open>json_loads\<close>, \<open>json_dumps\<close> and
  \<open>py_str\<close> agree with Python on the texts and values the examples give them.
\<close>

definition quoted :: "string \<Rightarrow> string" where
  "quoted s = CHR 0x22 # s @ [CHR 0x22]"

definition score_reply :: "string \<Rightarrow> string" where
  "score_reply n = ''{'' @ quoted ''score'' @ '': '' @ n @ ''}''"

definition fenced :: "string \<Rightarrow> string" where
  "fenced s = ''```json'' @ [CHR 0x0A] @ s @ [CHR 0x0A] @ ''```''"

definition profile0 :: StyleProfile where
  "profile0 =
     \<lparr>color_palette = JArr [JStr ''warm beige''], preferred_styles = JArr [],
      silhouettes = JArr [], patterns = JArr [], materials = JArr [], aesthetics = JArr [],
      avoid = JArr [], summary = JStr ''Understated French minimalism''\<rparr>"

definition profile0_text :: string where
  \<comment> \<open>\<open>json.dumps(profile0.to_dict(), indent=2)\<close>\<close>
  "profile0_text =
     ''{'' @ [CHR 0x0A] @
     ''  '' @ quoted ''color_palette'' @ '': ['' @ [CHR 0x0A] @
     ''    '' @ quoted ''warm beige'' @ [CHR 0x0A] @
     ''  ],'' @ [CHR 0x0A] @
     ''  '' @ quoted ''preferred_styles'' @ '': [],'' @ [CHR 0x0A] @
     ''  '' @ quoted ''silhouettes'' @ '': [],'' @ [CHR 0x0A] @
     ''  '' @ quoted ''patterns'' @ '': [],'' @ [CHR 0x0A] @
     ''  '' @ quoted ''materials'' @ '': [],'' @ [CHR 0x0A] @
     ''  '' @ quoted ''aesthetics'' @ '': [],'' @ [CHR 0x0A] @
     ''  '' @ quoted ''avoid'' @ '': [],'' @ [CHR 0x0A] @
     ''  '' @ quoted ''summary'' @ '': '' @ quoted ''Understated French minimalism'' @ [CHR 0x0A] @
     ''}''"

definition item :: "string \<Rightarrow> string \<Rightarrow> Product" where
  "item n img =
     \<lparr>name = n, price = ''$120'', url = ''https://www.sezane.com/product/x'', image_url = img,
      retailer = ''Sezane'', category = None, colors = [], sizes = [], description = None\<rparr>"

definition coat :: Product where "coat = item ''Wool Coat'' ''https://img.example/coat.jpg''"
definition scarf :: Product where "scarf = item ''Silk Scarf'' ''https://img.example/scarf.jpg''"
definition hat :: Product where "hat = item ''Straw Hat'' ''https://img.example/hat.jpg''"
definition shirt :: Product where "shirt = item ''Linen Shirt'' ''https://img.example/shirt.jpg''"
definition bag :: Product where "bag = item ''Leather Bag'' ''https://img.example/gone/bag.jpg''"
definition belt :: Product where "belt = item ''Woven Belt'' []"

definition world :: env where
  "world =
     \<lparr>files = (\<lambda>p. if p = ''style/look1.jpg'' then Some (File ''JPG'')
                     else if p = ''style/look2.png'' then Some (File ''PNG'')
                     else if p = ''style/old.jpg'' then Some Dir
                     else None),
      http_get = (\<lambda>u. if startswith u ''https://img.example/gone/''
                        then Inr \<lparr>status_code = 404, content_type = Some ''text/html'', body = []\<rparr>
                        else if startswith u ''https://img.example/''
                        then Inr \<lparr>status_code = 200, content_type = Some ''image/jpeg'', body = ''JPG''\<rparr>
                        else if u = sezane_get_new_arrivals_url
                        then Inr \<lparr>status_code = 200, content_type = Some ''text/html'', body = ''<html>''\<rparr>
                        else Inl HTTPError),
      messages_create = (\<lambda>content.
         case content of
           [Image m d, Prompt [ctx, n, pr, c]] \<Rightarrow>
             if n = ''Wool Coat'' then Inr (fenced (score_reply ''8''))
             else if n = ''Silk Scarf'' then Inr (score_reply ''-1'')
             else if n = ''Straw Hat'' then Inr (score_reply ''11'')
             else if n = ''Linen Shirt'' then Inr ''{}''
             else Inl APIError
         | _ \<Rightarrow> Inl APIError),
      parse_html = (\<lambda>h. soup3),
      json_loads = (\<lambda>s. if s = score_reply ''8'' then Some (JObj [(''score'', JInt 8)])
                          else if s = score_reply ''-1'' then Some (JObj [(''score'', JInt (- 1))])
                          else if s = score_reply ''11'' then Some (JObj [(''score'', JInt 11)])
                          else if s = ''{}'' then Some (JObj [])
                          else if s = profile0_text then Some (JObj (to_dict profile0))
                          else None),
      json_dumps = (\<lambda>v. if v = JObj (to_dict profile0) then profile0_text else ''null''),
      py_str = (\<lambda>v. case v of JStr s \<Rightarrow> s | _ \<Rightarrow> []),
      str_title = ascii_title,
      browser_available = True,
      init_browser = None,
      browser_page = (\<lambda>u. if u = arket_get_new_arrivals_url then Inr ''<html>''
                            else Inl PlaywrightError),
      close_browser = None\<rparr>"



definition chatty_world :: env where
  \<comment> \<open>the same world with a model that answers in prose\<close>
  "chatty_world = world\<lparr>messages_create := (\<lambda>content. Inr ''I see a warm, neutral palette.'')\<rparr>"

definition scored :: "Product \<Rightarrow> json \<Rightarrow> MatchResult" where
  "scored p v = \<lparr>product = p, score = v, reasoning = JStr [], style_notes = JStr [],
     suggested_pairings = JArr []\<rparr>"

definition catalogue :: "Product list" where
  "catalogue = [coat, scarf, hat, shirt, bag, belt]"

definition dir_paths :: "string list" where
  \<comment> \<open>a directory whose name ends like an image, then an image\<close>
  "dir_paths = [''style/old.jpg'', ''style/look2.png'']"

definition two_paths :: "string list" where
  "two_paths = [''style/missing.jpg'', ''style/look2.png'']"

section \<open>Deduplication by normalized URL\<close>

lemma sezane_step_dedup:
  "sezane_step t st l = dedup_step sezane_link_url (\<lambda>l. built (sezane_build t l)) st l"
  by (auto simp: sezane_step_def sezane_body_def dedup_step_def sezane_link_url_def built_def
      sezane_build_def Let_def split: prod.splits sum.splits option.splits)

lemma arket_step_dedup:
  "arket_step t st l = dedup_step arket_link_url (\<lambda>l. built (arket_build t l)) st l"
  by (auto simp: arket_step_def arket_body_def dedup_step_def arket_link_url_def built_def
      arket_build_def Let_def split: prod.splits sum.splits option.splits)

lemma dedup_foldl:
  assumes "\<And>l p k. key l = Some k \<Longrightarrow> build l = Some p \<Longrightarrow> url p = k"
  shows "\<exists>new. fst (foldl (dedup_step key build) (ps, seen) links) = ps @ new
     \<and> seen \<subseteq> snd (foldl (dedup_step key build) (ps, seen) links)
     \<and> url ` set new \<subseteq> snd (foldl (dedup_step key build) (ps, seen) links)
     \<and> distinct (map url new)
     \<and> (\<forall>p \<in> set new. url p \<notin> seen
          \<and> (\<exists>l. List.find (\<lambda>l. key l = Some (url p)) links = Some l \<and> build l = Some p))"
proof (induction links arbitrary: ps seen)
  case Nil
  then show ?case by simp
next
  case (Cons l ls)
  show ?case
  proof (cases "key l")
    case None
    from Cons.IH[of ps seen] obtain new where
      n: "fst (foldl (dedup_step key build) (ps, seen) ls) = ps @ new"
        "seen \<subseteq> snd (foldl (dedup_step key build) (ps, seen) ls)"
        "url ` set new \<subseteq> snd (foldl (dedup_step key build) (ps, seen) ls)"
        "distinct (map url new)"
        "\<forall>p \<in> set new. url p \<notin> seen
          \<and> (\<exists>l. List.find (\<lambda>l. key l = Some (url p)) ls = Some l \<and> build l = Some p)"
      by blast
    have s: "dedup_step key build (ps, seen) l = (ps, seen)"
      using None by (simp add: dedup_step_def)
    show ?thesis
      apply (rule exI[of _ new])
      using n None by (simp add: s)
  next
    case (Some k)
    show ?thesis
    proof (cases "k \<in> seen")
      case True
      from Cons.IH[of ps seen] obtain new where
        n: "fst (foldl (dedup_step key build) (ps, seen) ls) = ps @ new"
          "seen \<subseteq> snd (foldl (dedup_step key build) (ps, seen) ls)"
          "url ` set new \<subseteq> snd (foldl (dedup_step key build) (ps, seen) ls)"
          "distinct (map url new)"
          "\<forall>p \<in> set new. url p \<notin> seen
            \<and> (\<exists>l. List.find (\<lambda>l. key l = Some (url p)) ls = Some l \<and> build l = Some p)"
        by blast
      have s: "dedup_step key build (ps, seen) l = (ps, seen)"
        using Some True by (simp add: dedup_step_def)
      have "\<forall>p \<in> set new. url p \<noteq> k" using n(5) True by auto
      then show ?thesis
        apply (intro exI[of _ new])
        using n Some by (auto simp add: s)
    next
      case False
      show ?thesis
      proof (cases "build l")
        case None
        have s: "dedup_step key build (ps, seen) l = (ps, insert k seen)"
          using Some False None by (simp add: dedup_step_def)
        from Cons.IH[of ps "insert k seen"] obtain new where
          n: "fst (foldl (dedup_step key build) (ps, insert k seen) ls) = ps @ new"
            "insert k seen \<subseteq> snd (foldl (dedup_step key build) (ps, insert k seen) ls)"
            "url ` set new \<subseteq> snd (foldl (dedup_step key build) (ps, insert k seen) ls)"
            "distinct (map url new)"
            "\<forall>p \<in> set new. url p \<notin> insert k seen
              \<and> (\<exists>l. List.find (\<lambda>l. key l = Some (url p)) ls = Some l \<and> build l = Some p)"
          by blast
        show ?thesis
          apply (intro exI[of _ new])
          using n Some by (auto simp add: s)
      next
        case (Some p)
        have kp: "url p = k" using assms \<open>key l = Some k\<close> Some by blast
        have s: "dedup_step key build (ps, seen) l = (ps @ [p], insert k seen)"
          using \<open>key l = Some k\<close> False Some by (simp add: dedup_step_def)
        from Cons.IH[of "ps @ [p]" "insert k seen"] obtain new where
          n: "fst (foldl (dedup_step key build) (ps @ [p], insert k seen) ls) = (ps @ [p]) @ new"
            "insert k seen \<subseteq> snd (foldl (dedup_step key build) (ps @ [p], insert k seen) ls)"
            "url ` set new \<subseteq> snd (foldl (dedup_step key build) (ps @ [p], insert k seen) ls)"
            "distinct (map url new)"
            "\<forall>p \<in> set new. url p \<notin> insert k seen
              \<and> (\<exists>l. List.find (\<lambda>l. key l = Some (url p)) ls = Some l \<and> build l = Some p)"
          by blast
        show ?thesis
          apply (intro exI[of _ "p # new"])
          using n \<open>key l = Some k\<close> Some kp False by (auto simp add: s)
      qed
    qed
  qed
qed

lemma split_aux_hd: "hd (py_split_aux [c] acc s) = rev acc @ takeWhile (\<lambda>x. x \<noteq> c) s"
  by (induction "[c]" acc s rule: py_split_aux.induct) auto

lemma split_hd_free: "c \<notin> set (hd (py_split [c] s))"
  using set_takeWhileD[of c "\<lambda>x. x \<noteq> c" s] by (auto simp: py_split_def split_aux_hd)

lemma sezane_build_url:
  assumes "sezane_link_url l = Some k" "built (sezane_build t l) = Some p"
  shows "url p = k"
  using assms
  by (auto simp: sezane_link_url_def sezane_build_def built_def sezane_parse_product_link_def
      bind_def Let_def split: if_splits sum.splits option.splits)

lemma arket_build_url:
  assumes "arket_link_url l = Some k" "built (arket_build t l) = Some p"
  shows "url p = k"
  using assms
  by (auto simp: arket_link_url_def arket_build_def built_def arket_parse_product_link_def
      bind_def Let_def split: if_splits sum.splits option.splits)

lemma built_Some: "built r = Some p \<longleftrightarrow> r = Inr (Some p)"
  by (auto simp: built_def split: sum.splits option.splits)

lemma sezane_links_first:
  "distinct (map url (sezane_parse_links t links)) \<and>
   (\<forall>p \<in> set (sezane_parse_links t links).
      \<exists>l. List.find (\<lambda>l. sezane_link_url l = Some (url p)) links = Some l
          \<and> sezane_build t l = Inr (Some p))"
proof -
  have eq: "foldl (sezane_step t) = foldl (dedup_step sezane_link_url (\<lambda>l. built (sezane_build t l)))"
    by (intro ext arg_cong[where f=foldl]) (simp add: sezane_step_dedup)
  from dedup_foldl[of sezane_link_url "\<lambda>l. built (sezane_build t l)" "[]" "{}" links]
  show ?thesis
    using sezane_build_url by (fastforce simp: sezane_parse_links_def eq built_Some)
qed

lemma arket_links_first:
  "distinct (map url (arket_parse_links t links)) \<and>
   (\<forall>p \<in> set (arket_parse_links t links).
      \<exists>l. List.find (\<lambda>l. arket_link_url l = Some (url p)) links = Some l
          \<and> arket_build t l = Inr (Some p))"
proof -
  have eq: "foldl (arket_step t) = foldl (dedup_step arket_link_url (\<lambda>l. built (arket_build t l)))"
    by (intro ext arg_cong[where f=foldl]) (simp add: arket_step_dedup)
  from dedup_foldl[of arket_link_url "\<lambda>l. built (arket_build t l)" "[]" "{}" links]
  show ?thesis
    using arket_build_url by (fastforce simp: arket_parse_links_def eq built_Some)
qed

lemma sezane_link_url_no_fragment: "sezane_link_url l = Some k \<Longrightarrow> CHR ''#'' \<notin> set k"
  using split_hd_free[of "CHR ''#''"]
  by (auto simp: sezane_link_url_def sezane_normalize_def Let_def split: if_splits)

lemma arket_link_url_no_query: "arket_link_url l = Some k \<Longrightarrow> CHR ''?'' \<notin> set k"
  using split_hd_free[of "CHR ''?''"]
  by (auto simp: arket_link_url_def arket_normalize_def Let_def split: if_splits)

lemma soup3_sezane:
  "sezane_parse_products ascii_title soup3 =
     [\<lparr>name = ''Polo Shirt'', price = ''$95'',
       url = ''https://www.sezane.com/product/polo-shirt/navy'',
       image_url = ''https://img.example/a.jpg'', retailer = ''Sezane'',
       category = None, colors = [''Navy''], sizes = [], description = None\<rparr>]"
  by code_simp

lemma soup3_hrefs:
  "map (\<lambda>l. get_attr (snd l) ''href'')
     (filter (\<lambda>l. sezane_link_url l = Some ''https://www.sezane.com/product/polo-shirt/navy'')
        (sezane_product_links soup3)) =
   [Some ''/product/polo-shirt/navy#size-s'', Some ''/product/polo-shirt/navy#size-m'',
    Some ''/product/polo-shirt/navy#size-l'']"
  by code_simp

lemma soup3_arket: "map url (arket_parse_products ascii_title soup3) =
   [''https://www.arket.com/product/polo-shirt/navy#size-s'',
    ''https://www.arket.com/product/polo-shirt/navy#size-m'',
    ''https://www.arket.com/product/polo-shirt/navy#size-l'']"
  by code_simp

lemma dedup_foldl_grows:
  "set ps \<subseteq> set (fst (foldl (dedup_step key build) (ps, seen) links))"
proof (induction links arbitrary: ps seen)
  case Nil
  then show ?case by simp
next
  case (Cons l ls)
  obtain ps' seen' where s: "dedup_step key build (ps, seen) l = (ps', seen')"
    by (cases "dedup_step key build (ps, seen) l")
  have "set ps \<subseteq> set ps'"
    using s by (auto simp: dedup_step_def split: option.splits if_splits)
  then show ?case using Cons.IH[of ps' seen'] s by auto
qed

lemma dedup_foldl_complete:
  assumes "List.find (\<lambda>l'. key l' = Some k) links = Some l" and "build l = Some p" and "k \<notin> seen"
  shows "p \<in> set (fst (foldl (dedup_step key build) (ps, seen) links))"
  using assms
proof (induction links arbitrary: ps seen)
  case Nil
  then show ?case by simp
next
  case (Cons x xs)
  show ?case
  proof (cases "key x = Some k")
    case True
    then have "x = l" using Cons.prems(1) by simp
    then have "dedup_step key build (ps, seen) x = (ps @ [p], insert k seen)"
      using True Cons.prems by (simp add: dedup_step_def)
    then show ?thesis
      using dedup_foldl_grows[of "ps @ [p]" key build "insert k seen" xs] by auto
  next
    case False
    then have f: "List.find (\<lambda>l'. key l' = Some k) xs = Some l" using Cons.prems(1) by simp
    obtain ps' seen' where s: "dedup_step key build (ps, seen) x = (ps', seen')"
      by (cases "dedup_step key build (ps, seen) x")
    have "k \<notin> seen'"
      using s False Cons.prems(3) by (auto simp: dedup_step_def split: option.splits if_splits)
    then show ?thesis using Cons.IH[OF f Cons.prems(2), of seen' ps'] s by simp
  qed
qed

lemma sezane_links_kept:
  assumes "List.find (\<lambda>l'. sezane_link_url l' = Some k) links = Some l"
    and "sezane_build t l = Inr (Some p)"
  shows "p \<in> set (sezane_parse_links t links)"
proof -
  have eq: "foldl (sezane_step t) = foldl (dedup_step sezane_link_url (\<lambda>l. built (sezane_build t l)))"
    by (intro ext arg_cong[where f=foldl]) (simp add: sezane_step_dedup)
  have "built (sezane_build t l) = Some p" using assms(2) by (simp add: built_Some)
  then show ?thesis
    using dedup_foldl_complete[of sezane_link_url k links l "\<lambda>l. built (sezane_build t l)" p "{}" "[]"] assms(1)
    by (simp add: sezane_parse_links_def eq)
qed

lemma arket_links_kept:
  assumes "List.find (\<lambda>l'. arket_link_url l' = Some k) links = Some l"
    and "arket_build t l = Inr (Some p)"
  shows "p \<in> set (arket_parse_links t links)"
proof -
  have eq: "foldl (arket_step t) = foldl (dedup_step arket_link_url (\<lambda>l. built (arket_build t l)))"
    by (intro ext arg_cong[where f=foldl]) (simp add: arket_step_dedup)
  have "built (arket_build t l) = Some p" using assms(2) by (simp add: built_Some)
  then show ?thesis
    using dedup_foldl_complete[of arket_link_url k links l "\<lambda>l. built (arket_build t l)" p "{}" "[]"] assms(1)
    by (simp add: arket_parse_links_def eq)
qed

lemma split_hd_takeWhile: "hd (py_split [c] s) = takeWhile (\<lambda>x. x \<noteq> c) s"
  by (simp add: py_split_def split_aux_hd)

lemma sezane_link_url_iff:
  "sezane_link_url l = Some k \<longleftrightarrow>
     (\<exists>h. get_attr (snd l) ''href'' = Some h \<and> h \<noteq> [] \<and> py_in ''/product/'' h
        \<and> k = takeWhile (\<lambda>c. c \<noteq> CHR ''#'')
                (if prefix ''http'' h then h else ''https://www.sezane.com'' @ h))"
  by (auto simp: sezane_link_url_def sezane_normalize_def split_hd_takeWhile startswith_def
      sezane_BASE_URL_def Let_def split: option.splits)

lemma arket_link_url_iff:
  "arket_link_url l = Some k \<longleftrightarrow>
     (\<exists>h. get_attr (snd l) ''href'' = Some h \<and> h \<noteq> []
        \<and> (py_in ''/p/'' h \<or> py_in ''/product'' h)
        \<and> k = takeWhile (\<lambda>c. c \<noteq> CHR ''?'')
                (if prefix ''http'' h then h else ''https://www.arket.com'' @ h))"
  by (auto simp: arket_link_url_def arket_normalize_def split_hd_takeWhile startswith_def
      arket_BASE_URL_def Let_def split: option.splits)

lemma soup_utm_sezane: "map url (sezane_parse_products ascii_title soup_utm) =
   [''https://www.sezane.com/product/polo-shirt/navy?utm=mail'',
    ''https://www.sezane.com/product/polo-shirt/navy?utm=home'']"
  by code_simp

lemma soup3_first:
  "map (\<lambda>l. get_attr (snd l) ''href'')
     (case List.find (\<lambda>l. sezane_link_url l = Some ''https://www.sezane.com/product/polo-shirt/navy'')
             (sezane_product_links soup3) of None \<Rightarrow> [] | Some l \<Rightarrow> [l])
     = [Some ''/product/polo-shirt/navy#size-s'']"
  "map (\<lambda>l. sezane_build ascii_title l)
     (case List.find (\<lambda>l. sezane_link_url l = Some ''https://www.sezane.com/product/polo-shirt/navy'')
             (sezane_product_links soup3) of None \<Rightarrow> [] | Some l \<Rightarrow> [l])
     = [Inr (Some \<lparr>name = ''Polo Shirt'', price = ''$95'',
           url = ''https://www.sezane.com/product/polo-shirt/navy'',
           image_url = ''https://img.example/a.jpg'', retailer = ''Sezane'',
           category = None, colors = [''Navy''], sizes = [], description = None\<rparr>)]"
  by code_simp+

text \<open>
  C1, as stated, fails when the normalized URL is the URL without its fragment and query
  string: the Arket scraper cuts the query string only, so three anchors that differ in
  the fragment give three products, and the Sezane scraper cuts the fragment only, so two
  anchors that differ in the query string give two.
\<close>

theorem suffix_variants_kept_apart_counterexample:
  "map url (arket_parse_products ascii_title soup3) =
     [''https://www.arket.com/product/polo-shirt/navy#size-s'',
      ''https://www.arket.com/product/polo-shirt/navy#size-m'',
      ''https://www.arket.com/product/polo-shirt/navy#size-l'']
   \<and> map (takeWhile (\<lambda>c. c \<noteq> CHR ''#'')) (map url (arket_parse_products ascii_title soup3)) =
     [''https://www.arket.com/product/polo-shirt/navy'',
      ''https://www.arket.com/product/polo-shirt/navy'',
      ''https://www.arket.com/product/polo-shirt/navy'']
   \<and> map url (sezane_parse_products ascii_title soup_utm) =
     [''https://www.sezane.com/product/polo-shirt/navy?utm=mail'',
      ''https://www.sezane.com/product/polo-shirt/navy?utm=home'']
   \<and> map (takeWhile (\<lambda>c. c \<noteq> CHR ''?'')) (map url (sezane_parse_products ascii_title soup_utm)) =
     [''https://www.sezane.com/product/polo-shirt/navy'',
      ''https://www.sezane.com/product/polo-shirt/navy'']"
  by (simp add: soup3_arket soup_utm_sezane)

text \<open>
  C1, amended. Each scraper files an anchor under its own normalized URL: the href, made
  absolute with the retailer's address, cut at the first \<open>#\<close> by the Sezane scraper
  and at the first \<open>?\<close> by the Arket scraper. No two products returned have the same
  URL, and a product is returned exactly when it is what the parse of the first anchor of
  the page filed under its URL builds. (A first anchor whose parse raises or gives nothing
  takes the URL with it: the later anchors filed under it are skipped.)
\<close>

theorem parse_products_first_seen:
  "distinct (map url (sezane_parse_products t soup))
   \<and> (\<forall>p. p \<in> set (sezane_parse_products t soup) \<longleftrightarrow>
        (\<exists>l. List.find (\<lambda>l'. sezane_link_url l' = Some (url p)) (sezane_product_links soup) = Some l
           \<and> sezane_build t l = Inr (Some p)))
   \<and> (\<forall>l k. sezane_link_url l = Some k \<longleftrightarrow>
        (\<exists>h. get_attr (snd l) ''href'' = Some h \<and> h \<noteq> [] \<and> py_in ''/product/'' h
           \<and> k = takeWhile (\<lambda>c. c \<noteq> CHR ''#'')
                   (if prefix ''http'' h then h else ''https://www.sezane.com'' @ h)))
   \<and> distinct (map url (arket_parse_products t soup))
   \<and> (\<forall>p. p \<in> set (arket_parse_products t soup) \<longleftrightarrow>
        (\<exists>l. List.find (\<lambda>l'. arket_link_url l' = Some (url p)) (arket_product_links soup) = Some l
           \<and> arket_build t l = Inr (Some p)))
   \<and> (\<forall>l k. arket_link_url l = Some k \<longleftrightarrow>
        (\<exists>h. get_attr (snd l) ''href'' = Some h \<and> h \<noteq> []
           \<and> (py_in ''/p/'' h \<or> py_in ''/product'' h)
           \<and> k = takeWhile (\<lambda>c. c \<noteq> CHR ''?'')
                   (if prefix ''http'' h then h else ''https://www.arket.com'' @ h)))"
proof (intro conjI allI)
  show "distinct (map url (sezane_parse_products t soup))"
    using sezane_links_first[of t "sezane_product_links soup"]
    by (simp add: sezane_parse_products_def)
  show "distinct (map url (arket_parse_products t soup))"
    using arket_links_first[of t "arket_product_links soup"]
    by (simp add: arket_parse_products_def)
  show "p \<in> set (sezane_parse_products t soup) \<longleftrightarrow>
        (\<exists>l. List.find (\<lambda>l'. sezane_link_url l' = Some (url p)) (sezane_product_links soup) = Some l
           \<and> sezane_build t l = Inr (Some p))" for p
    using sezane_links_first[of t "sezane_product_links soup"] sezane_links_kept
    unfolding sezane_parse_products_def by blast
  show "p \<in> set (arket_parse_products t soup) \<longleftrightarrow>
        (\<exists>l. List.find (\<lambda>l'. arket_link_url l' = Some (url p)) (arket_product_links soup) = Some l
           \<and> arket_build t l = Inr (Some p))" for p
    using arket_links_first[of t "arket_product_links soup"] arket_links_kept
    unfolding arket_parse_products_def by blast
  show "sezane_link_url l = Some k \<longleftrightarrow>
        (\<exists>h. get_attr (snd l) ''href'' = Some h \<and> h \<noteq> [] \<and> py_in ''/product/'' h
           \<and> k = takeWhile (\<lambda>c. c \<noteq> CHR ''#'')
                   (if prefix ''http'' h then h else ''https://www.sezane.com'' @ h))" for l k
    by (rule sezane_link_url_iff)
  show "arket_link_url l = Some k \<longleftrightarrow>
        (\<exists>h. get_attr (snd l) ''href'' = Some h \<and> h \<noteq> []
           \<and> (py_in ''/p/'' h \<or> py_in ''/product'' h)
           \<and> k = takeWhile (\<lambda>c. c \<noteq> CHR ''?'')
                   (if prefix ''http'' h then h else ''https://www.arket.com'' @ h))" for l k
    by (rule arket_link_url_iff)
qed

theorem parse_products_first_seen_witness:
  "sezane_parse_products ascii_title soup3 =
     [\<lparr>name = ''Polo Shirt'', price = ''$95'',
       url = ''https://www.sezane.com/product/polo-shirt/navy'',
       image_url = ''https://img.example/a.jpg'', retailer = ''Sezane'',
       category = None, colors = [''Navy''], sizes = [], description = None\<rparr>] \<and>
   distinct (map url (sezane_parse_products ascii_title soup3)) \<and>
   map (\<lambda>l. get_attr (snd l) ''href'')
     (filter (\<lambda>l. sezane_link_url l = Some ''https://www.sezane.com/product/polo-shirt/navy'')
        (sezane_product_links soup3)) =
   [Some ''/product/polo-shirt/navy#size-s'', Some ''/product/polo-shirt/navy#size-m'',
    Some ''/product/polo-shirt/navy#size-l''] \<and>
   map (\<lambda>l. get_attr (snd l) ''href'')
     (case List.find (\<lambda>l. sezane_link_url l = Some ''https://www.sezane.com/product/polo-shirt/navy'')
             (sezane_product_links soup3) of None \<Rightarrow> [] | Some l \<Rightarrow> [l])
     = [Some ''/product/polo-shirt/navy#size-s''] \<and>
   length (arket_parse_products ascii_title soup3) = 3 \<and>
   distinct (map url (arket_parse_products ascii_title soup3))"
proof -
  have l3: "length (arket_parse_products ascii_title soup3) = 3"
    using arg_cong[OF soup3_arket, of length] by simp
  show ?thesis
    using parse_products_first_seen[of ascii_title soup3] l3 soup3_hrefs soup3_first(1)
    by (simp add: soup3_sezane)
qed

section \<open>The volatile suffix of a URL\<close>

lemma query_sezane: "map url (sezane_parse_products ascii_title soup_query)
     = [''https://www.sezane.com/product/polo-shirt?utm=mail'']"
  by code_simp

lemma query_arket: "map url (arket_parse_products ascii_title soup_query)
     = [''https://www.arket.com/product/polo-shirt'', ''https://www.arket.com/p/cotton-shirt#main'']"
  by code_simp

text \<open>
  C2, as stated, fails: the Sezane scraper cuts the URL at the first \<open>#\<close> and keeps a
  query string, the Arket scraper cuts it at the first \<open>?\<close> and keeps a fragment.
\<close>

theorem url_keeps_other_suffix_counterexample:
  "map url (sezane_parse_products ascii_title soup_query)
     = [''https://www.sezane.com/product/polo-shirt?utm=mail''] \<and>
   CHR ''?'' \<in> set ''https://www.sezane.com/product/polo-shirt?utm=mail'' \<and>
   map url (arket_parse_products ascii_title soup_query)
     = [''https://www.arket.com/product/polo-shirt'', ''https://www.arket.com/p/cotton-shirt#main''] \<and>
   CHR ''#'' \<in> set ''https://www.arket.com/p/cotton-shirt#main''"
  using query_sezane query_arket by simp

text \<open>
  C2, amended. A URL stored by the Sezane scraper holds no \<open>#\<close>, and a URL stored by the
  Arket scraper holds no \<open>?\<close>: each scraper strips the one suffix it treats as volatile.
\<close>

theorem url_volatile_suffix_stripped:
  "(\<forall>p \<in> set (sezane_parse_products t soup). CHR ''#'' \<notin> set (url p)) \<and>
   (\<forall>p \<in> set (arket_parse_products t soup). CHR ''?'' \<notin> set (url p))"
proof (intro conjI ballI)
  fix p assume "p \<in> set (sezane_parse_products t soup)"
  then obtain l where "List.find (\<lambda>l. sezane_link_url l = Some (url p)) (sezane_product_links soup) = Some l"
    using sezane_links_first[of t "sezane_product_links soup"]
    unfolding sezane_parse_products_def by blast
  then have "sezane_link_url l = Some (url p)" by (auto simp: find_Some_iff)
  then show "CHR ''#'' \<notin> set (url p)" by (rule sezane_link_url_no_fragment)
next
  fix p assume "p \<in> set (arket_parse_products t soup)"
  then obtain l where "List.find (\<lambda>l. arket_link_url l = Some (url p)) (arket_product_links soup) = Some l"
    using arket_links_first[of t "arket_product_links soup"]
    unfolding arket_parse_products_def by blast
  then have "arket_link_url l = Some (url p)" by (auto simp: find_Some_iff)
  then show "CHR ''?'' \<notin> set (url p)" by (rule arket_link_url_no_query)
qed

theorem url_volatile_suffix_stripped_witness:
  "CHR ''#'' \<notin> set ''https://www.sezane.com/product/polo-shirt?utm=mail'' \<and>
   map url (sezane_parse_products ascii_title soup_query)
     = [''https://www.sezane.com/product/polo-shirt?utm=mail''] \<and>
   CHR ''?'' \<notin> set ''https://www.arket.com/p/cotton-shirt#main'' \<and>
   map url (arket_parse_products ascii_title soup_query)
     = [''https://www.arket.com/product/polo-shirt'', ''https://www.arket.com/p/cotton-shirt#main'']"
proof -
  have "\<forall>u \<in> set (map url (sezane_parse_products ascii_title soup_query)). CHR ''#'' \<notin> set u"
       "\<forall>u \<in> set (map url (arket_parse_products ascii_title soup_query)). CHR ''?'' \<notin> set u"
    using url_volatile_suffix_stripped[of ascii_title soup_query] by auto
  then show ?thesis unfolding query_sezane query_arket by simp
qed

section \<open>The matcher: collecting, filtering and ranking\<close>

lemma collect_scores:
  "r \<in> set (collect k outcome) \<Longrightarrow> num_of (score r) = Some (score_key r) \<and> of_int k \<le> score_key r"
  by (auto simp: collect_def py_ge_def score_key_def split: sum.splits option.splits if_splits)


lemma collect_mono:
  "0 \<le> k \<Longrightarrow> set (collect k outcome) \<subseteq> set (collect 0 outcome)"
  by (auto simp: collect_def py_ge_def split: sum.splits option.splits if_splits)

lemma sort_by_score_numeric:
  assumes "\<forall>r \<in> set rs. num_of (score r) \<noteq> None"
  shows "sort_by_score rs = Inr (rev (sort_key score_key (rev rs)))"
  using assms by (simp add: sort_by_score_def list_all_iff)

lemma sorted_desc: "sorted_wrt (\<lambda>a b. f b \<le> f a) (rev (sort_key f xs))"
proof -
  have "sorted (map f (sort_key f xs))" by (rule sorted_sort_key)
  then have "sorted_wrt (\<lambda>a b. f a \<le> f b) (sort_key f xs)" by (simp add: sorted_map)
  then show ?thesis by (simp add: sorted_wrt_rev)
qed

lemma gathered_numeric:
  "\<forall>r \<in> set (concat (map (\<lambda>p. collect k (g p)) ps)). num_of (score r) \<noteq> None"
  using collect_scores by fastforce

lemma match_products_Inr:
  "0 < max_workers \<Longrightarrow>
   match_products w profile completion products k max_workers limit =
     Inr (rev (sort_key score_key (rev (concat (map (\<lambda>p. collect k (match_product w profile p))
       (completion (dispatched products limit)))))))"
  using sort_by_score_numeric[OF gathered_numeric]
  by (simp add: match_products_def Let_def)

lemma match_products_Inl:
  "\<not> 0 < max_workers \<Longrightarrow>
   match_products w profile completion products k max_workers limit =
     Inl (ValueError ''max_workers must be greater than 0'')"
  by (simp add: match_products_def Let_def)

lemma catalogue_0:
  "match_products world profile0 (\<lambda>xs. xs) catalogue 0 3 None
     = Inr [scored hat (JInt 11), scored coat (JInt 8), scored shirt (JInt 0)]"
  by code_simp

lemma catalogue_5:
  "match_products world profile0 (\<lambda>xs. xs) catalogue 5 3 None
     = Inr [scored hat (JInt 11), scored coat (JInt 8)]"
  by code_simp

lemma scarf_minus_1:
  "match_products world profile0 (\<lambda>xs. xs) [scarf] (- 1) 3 None = Inr [scored scarf (JInt (- 1))]"
  by code_simp

lemma scarf_0:
  "match_products world profile0 (\<lambda>xs. xs) [scarf] 0 3 None = Inr []"
  by code_simp

lemma keys_0: "map score_key [scored hat (JInt 11), scored coat (JInt 8), scored shirt (JInt 0)] = [11, 8, 0]"
  by (simp add: score_key_def scored_def num_of_def)

lemma dispatched_examples:
  "dispatched [coat, belt, hat] (Some 0) = [coat, hat]"
  "dispatched [coat, belt, hat] None = [coat, hat]"
  "dispatched [coat, belt, hat] (Some 1) = [coat]"
  "dispatched [coat] (Some (- 1)) = []"
  "filter (\<lambda>p. image_url p \<noteq> []) [coat] = [coat]"
  by code_simp+

lemma hat_11: "match_product world profile0 hat = Inr (Some (scored hat (JInt 11)))"
  by code_simp

lemma shirt_0: "match_product world profile0 shirt = Inr (Some (scored shirt (JInt 0)))"
  by code_simp

text \<open>
  C6. \<open>match_products\<close> returns whenever \<open>max_workers\<close> is positive, whatever the tasks
  do and in whatever order they complete, and the list it returns is sorted non-increasing
  by score: each result's score is a number, \<open>score_key\<close> is that number, and of two
  results the earlier has the larger or equal one.
\<close>

theorem match_products_sorted:
  "(0 < max_workers \<longrightarrow> (\<exists>rs. match_products w profile completion products min_score max_workers limit = Inr rs))
   \<and> (\<forall>rs. match_products w profile completion products min_score max_workers limit = Inr rs \<longrightarrow>
        sorted_wrt (\<lambda>a b. score_key b \<le> score_key a) rs
        \<and> (\<forall>r \<in> set rs. num_of (score r) = Some (score_key r)))"
proof (cases "0 < max_workers")
  case True
  show ?thesis
    unfolding match_products_Inr[OF True]
    using sorted_desc[of score_key] collect_scores by fastforce
next
  case False
  then show ?thesis by (simp add: match_products_Inl)
qed

theorem match_products_sorted_witness:
  "(0::int) < 3
   \<and> match_products world profile0 (\<lambda>xs. xs) catalogue 0 3 None
       = Inr [scored hat (JInt 11), scored coat (JInt 8), scored shirt (JInt 0)]
   \<and> sorted_wrt (\<lambda>a b. score_key b \<le> score_key a)
       [scored hat (JInt 11), scored coat (JInt 8), scored shirt (JInt 0)]
   \<and> map score_key [scored hat (JInt 11), scored coat (JInt 8), scored shirt (JInt 0)] = [11, 8, 0]"
  using match_products_sorted[of 3 world profile0 "\<lambda>xs. xs" catalogue 0 None] catalogue_0 keys_0
  by simp

text \<open>
  C5, as stated, fails for a negative threshold: the score is whatever number the model
  returned, and a result with score \<open>-1\<close> passes \<open>min_score = -1\<close> but not
  \<open>min_score = 0\<close>.
\<close>

theorem match_products_threshold_counterexample:
  "match_products world profile0 (\<lambda>xs. xs) [scarf] (- 1) 3 None = Inr [scored scarf (JInt (- 1))]
   \<and> match_products world profile0 (\<lambda>xs. xs) [scarf] 0 3 None = Inr []
   \<and> \<not> set [scored scarf (JInt (- 1))] \<subseteq> set ([] :: MatchResult list)"
  using scarf_minus_1 scarf_0 by simp

text \<open>
  C5, amended. With the outcomes of the tasks and their completion order fixed, the results
  for a threshold \<open>k \<ge> 0\<close> are among the results for the threshold 0, and for every
  threshold \<open>k\<close> every result returned has a score \<open>\<ge> k\<close>.
\<close>

theorem match_products_threshold:
  assumes "match_products w profile completion products k max_workers limit = Inr rk"
    and "match_products w profile completion products 0 max_workers limit = Inr r0"
  shows "(0 \<le> k \<longrightarrow> set rk \<subseteq> set r0)
    \<and> (\<forall>r \<in> set rk. num_of (score r) = Some (score_key r) \<and> of_int k \<le> score_key r)"
proof -
  have mw: "0 < max_workers" using assms(1) by (auto simp: match_products_def Let_def split: if_splits)
  have rk: "set rk = (\<Union>p \<in> set (completion (dispatched products limit)). set (collect k (match_product w profile p)))"
    using assms(1) unfolding match_products_Inr[OF mw] by auto
  have r0: "set r0 = (\<Union>p \<in> set (completion (dispatched products limit)). set (collect 0 (match_product w profile p)))"
    using assms(2) unfolding match_products_Inr[OF mw] by auto
  show ?thesis
    unfolding rk r0 using collect_mono collect_scores by fastforce
qed

theorem match_products_threshold_witness:
  "match_products world profile0 (\<lambda>xs. xs) catalogue 5 3 None
     = Inr [scored hat (JInt 11), scored coat (JInt 8)]
   \<and> match_products world profile0 (\<lambda>xs. xs) catalogue 0 3 None
     = Inr [scored hat (JInt 11), scored coat (JInt 8), scored shirt (JInt 0)]
   \<and> (0::int) \<le> 5
   \<and> set [scored hat (JInt 11), scored coat (JInt 8)]
       \<subseteq> set [scored hat (JInt 11), scored coat (JInt 8), scored shirt (JInt 0)]
   \<and> of_int 5 \<le> score_key (scored hat (JInt 11)) \<and> of_int 5 \<le> score_key (scored coat (JInt 8))"
  using match_products_threshold[OF catalogue_5 catalogue_0] catalogue_5 catalogue_0 by simp

text \<open>
  C10, as stated, fails in its last part: a negative limit is truthy, the slice
  \<open>[:limit]\<close> then drops products from the end, and with one image-bearing product
  \<open>limit = -1\<close> dispatches none.
\<close>

theorem negative_limit_counterexample:
  "dispatched [coat] (Some (- 1)) = [] \<and> filter (\<lambda>p. image_url p \<noteq> []) [coat] = [coat]"
  using dispatched_examples by simp

text \<open>
  C10, amended. \<open>limit = 0\<close> is treated as \<open>limit = None\<close>: nothing is cut and every
  product with an image is dispatched; and no limit \<open>n \<ge> 0\<close> dispatches nothing while a
  product with an image is present.
\<close>

theorem limit_zero_is_no_limit:
  "dispatched products (Some 0) = dispatched products None
   \<and> dispatched products None = filter (\<lambda>p. image_url p \<noteq> []) products
   \<and> match_products w profile completion products min_score max_workers (Some 0)
       = match_products w profile completion products min_score max_workers None
   \<and> (\<forall>n. 0 \<le> n \<longrightarrow> dispatched products (Some n) = [] \<longrightarrow> filter (\<lambda>p. image_url p \<noteq> []) products = [])"
  by (auto simp: dispatched_def match_products_def py_slice_to_def Let_def)

theorem limit_zero_is_no_limit_witness:
  "dispatched [coat, belt, hat] (Some 0) = [coat, hat]
   \<and> dispatched [coat, belt, hat] None = [coat, hat]
   \<and> match_products world profile0 (\<lambda>xs. xs) [coat, belt, hat] 0 3 (Some 0)
       = match_products world profile0 (\<lambda>xs. xs) [coat, belt, hat] 0 3 None
   \<and> (0::int) \<le> 1 \<and> dispatched [coat, belt, hat] (Some 1) = [coat]"
  using limit_zero_is_no_limit[of "[coat, belt, hat]" world profile0 "\<lambda>xs. xs" 0 3] dispatched_examples
  by simp

section \<open>The score of a match\<close>

text \<open>
  C3, as stated, fails: the score is not checked against the range 1 to 10. A model that
  replies with the score 11 gives a result with the score 11.
\<close>

theorem score_out_of_range_counterexample:
  "match_product world profile0 hat = Inr (Some (scored hat (JInt 11)))
   \<and> score (scored hat (JInt 11)) = JInt 11 \<and> \<not> (11::int) \<le> 10"
  using hat_11 by (simp add: scored_def)

lemma model_match_score:
  assumes "model_match w prd content = Inr r"
  shows "\<exists>response_text cleaned kvs.
           messages_create w content = Inr response_text
         \<and> strip_markdown response_text = Inr cleaned
         \<and> json_loads w (py_strip cleaned) = Some (JObj kvs)
         \<and> score r = dict_get kvs ''score'' (JInt 0)
         \<and> product r = prd"
proof -
  from assms obtain response_text where t: "messages_create w content = Inr response_text"
    by (cases "messages_create w content") (auto simp: model_match_def bind_def)
  from assms t obtain cleaned where c: "strip_markdown response_text = Inr cleaned"
    by (cases "strip_markdown response_text") (auto simp: model_match_def bind_def)
  from assms t c obtain kvs where k: "json_loads w (py_strip cleaned) = Some (JObj kvs)"
    by (auto simp: model_match_def bind_def split: option.splits json.splits)
  from assms t c k have "score r = dict_get kvs ''score'' (JInt 0)" "product r = prd"
    by (auto simp: model_match_def bind_def)
  with t c k show ?thesis by blast
qed

lemma match_product_model:
  assumes "match_product w profile prd = Inr (Some r)"
  shows "\<exists>content. model_match w prd content = Inr r"
  using assms
  by (auto simp: match_product_def bind_def Let_def
      split: if_splits option.splits sum.splits prod.splits)

text \<open>
  C3, amended. The score of a result of \<open>match_product\<close> is the value under the key
  \<open>score\<close> of the JSON object the model's reply parses to, whatever that value is, and
  0 when the object has no such key; the result carries the product it was asked about.
\<close>

theorem match_product_score:
  assumes "match_product w profile prd = Inr (Some r)"
  shows "\<exists>content response_text cleaned kvs.
           messages_create w content = Inr response_text
         \<and> strip_markdown response_text = Inr cleaned
         \<and> json_loads w (py_strip cleaned) = Some (JObj kvs)
         \<and> score r = dict_get kvs ''score'' (JInt 0)
         \<and> product r = prd"
  using match_product_model[OF assms] model_match_score by blast

theorem match_product_score_witness:
  "match_product world profile0 shirt = Inr (Some (scored shirt (JInt 0)))
   \<and> (\<exists>content response_text cleaned kvs.
           messages_create world content = Inr response_text
         \<and> strip_markdown response_text = Inr cleaned
         \<and> json_loads world (py_strip cleaned) = Some (JObj kvs)
         \<and> score (scored shirt (JInt 0)) = dict_get kvs ''score'' (JInt 0)
         \<and> product (scored shirt (JInt 0)) = shirt)"
  using match_product_score[OF shirt_0] shirt_0 by simp

section \<open>The analyzer\<close>

lemma split_aux_nonempty: "py_split_aux sep acc s \<noteq> []"
  by (induction sep acc s rule: py_split_aux.induct) auto

lemma split_aux_two:
  "sep \<noteq> [] \<Longrightarrow> py_in sep s \<Longrightarrow> 2 \<le> length (py_split_aux sep acc s)"
proof (induction sep acc s rule: py_split_aux.induct)
  case (1 sep acc)
  then show ?case by simp
next
  case (2 sep acc c cs)
  show ?case
  proof (cases "prefix sep (c # cs)")
    case True
    have "1 \<le> length (py_split_aux sep [] (drop (length sep) (c # cs)))"
      using split_aux_nonempty[of sep "[]" "drop (length sep) (c # cs)"]
      by (cases "py_split_aux sep [] (drop (length sep) (c # cs))") auto
    then show ?thesis using True 2(3) by simp
  next
    case False
    then have "py_in sep cs" using 2(4) by simp
    then show ?thesis using False 2(2) 2(3) by simp
  qed
qed

lemma py_index_split_0: "\<exists>x. py_index (py_split sep s) 0 = Inr x"
  using split_aux_nonempty[of sep "[]" s] by (auto simp: py_index_def py_split_def)

lemma py_index_split_1: "sep \<noteq> [] \<Longrightarrow> py_in sep s \<Longrightarrow> \<exists>x. py_index (py_split sep s) 1 = Inr x"
  using split_aux_two[of sep s "[]"] by (auto simp: py_index_def py_split_def)

lemma strip_markdown_total: "\<exists>cleaned. strip_markdown t = Inr cleaned"
proof -
  have a: "py_in ''```json'' t \<Longrightarrow> \<exists>x. py_index (py_split ''```json'' t) 1 = Inr x"
    by (rule py_index_split_1) auto
  have b: "py_in ''```'' t \<Longrightarrow> \<exists>x. py_index (py_split ''```'' t) 1 = Inr x"
    by (rule py_index_split_1) auto
  show ?thesis
    unfolding strip_markdown_def using a b py_index_split_0[of "''```''"]
    by (fastforce simp: bind_def)
qed

lemma readable_image_None:
  "files w p \<noteq> Some Dir \<Longrightarrow> readable_image w p = None \<longleftrightarrow> files w p = None"
proof (cases "files w p")
  case None
  then show ?thesis by (simp add: readable_image_def)
next
  case (Some e)
  assume "files w p \<noteq> Some Dir"
  then show ?thesis using Some by (cases e) (auto simp: readable_image_def)
qed

lemma load_images_readable:
  assumes "\<forall>p \<in> set ps. files w p \<noteq> Some Dir"
  shows "load_images w ps = Inr (List.map_filter (readable_image w) ps)"
  using assms
proof (induction ps)
  case Nil
  then show ?case by (simp add: List.map_filter_simps)
next
  case (Cons p ps)
  then have ih: "load_images w ps = Inr (List.map_filter (readable_image w) ps)" by simp
  show ?case
  proof (cases "files w p")
    case None
    then have "readable_image w p = None" by (simp add: readable_image_def)
    then show ?thesis
      using ih None by (simp add: path_exists_def List.map_filter_simps)
  next
    case (Some e)
    then obtain bytes where e: "e = File bytes" using Cons.prems by (cases e) auto
    have r: "readable_image w p = Some (Image (media_type_of p) (b64encode bytes))"
      using Some e by (simp add: readable_image_def)
    have li: "load_image w p = Inr (b64encode bytes, media_type_of p)"
      using Some e by (simp add: load_image_def open_read_def bind_def)
    show ?thesis
      using ih Some r li
      by (simp add: path_exists_def List.map_filter_simps bind_def)
  qed
qed

lemma map_filter_empty:
  "List.map_filter f xs = [] \<longleftrightarrow> (\<forall>x \<in> set xs. f x = None)"
  by (induction xs) (auto simp: List.map_filter_simps split: option.splits)

lemma world_files:
  "files chatty_world ''style/old.jpg'' = Some Dir"
  "files world ''style/look1.jpg'' = Some (File ''JPG'')"
  "files chatty_world ''style/missing.jpg'' = None"
  "files chatty_world ''style/look2.png'' = Some (File ''PNG'')"
  "files world ''style/profile.json'' = None"
  by code_simp+

lemma look2_alone:
  "analyze_style_images chatty_world [''style/look2.png''] = Inr unparsed_profile"
  by code_simp

lemma dir_paths_raise:
  "analyze_style_images chatty_world dir_paths = Inl OSError"
  "analyze_style_images chatty_world [''style/old.jpg''] = Inl OSError"
  by code_simp+

lemma two_paths_facts:
  "two_paths \<noteq> []"
  "List.map_filter (readable_image chatty_world) (take 10 two_paths) = [Image ''image/png'' ''UE5H'']"
  "list_all (\<lambda>p. files chatty_world p \<noteq> Some Dir) (take 10 two_paths)"
  "load_images chatty_world (take 10 two_paths) = Inr [Image ''image/png'' ''UE5H'']"
  "messages_create chatty_world ([Image ''image/png'' ''UE5H''] @ [Prompt []]) = Inr ''I see a warm, neutral palette.''"
  "strip_markdown ''I see a warm, neutral palette.'' = Inr ''I see a warm, neutral palette.''"
  "json_loads chatty_world (py_strip ''I see a warm, neutral palette.'') = None"
  by code_simp+

lemma profile0_facts:
  "json_loads world (json_dumps world (JObj (to_dict profile0))) = Some (JObj (to_dict profile0))"
  "files world ''style/profile.json'' \<noteq> Some Dir"
  by code_simp+




lemma scrape_world:
  "sezane_scrape_new_arrivals world =
     Inr [\<lparr>name = ''Polo Shirt'', price = ''$95'',
           url = ''https://www.sezane.com/product/polo-shirt/navy'',
           image_url = ''https://img.example/a.jpg'', retailer = ''Sezane'',
           category = None, colors = [''Navy''], sizes = [], description = None\<rparr>]"
  by code_simp

text \<open>
  C7. A profile that is turned into its dict and back is the same profile in all eight
  fields. Through the file, \<open>save_profile\<close> succeeds unless the path is a directory, and
  \<open>load_profile\<close> then gives the profile back, provided the JSON library reads back what
  it wrote for this document.
\<close>

theorem profile_round_trip:
  "from_dict (JObj (to_dict p)) = Inr p
   \<and> (files w path \<noteq> Some Dir \<longrightarrow> (\<exists>w'. save_profile w p path = Inr w'))
   \<and> (\<forall>w'. save_profile w p path = Inr w' \<longrightarrow>
         json_loads w (json_dumps w (JObj (to_dict p))) = Some (JObj (to_dict p)) \<longrightarrow>
         load_profile w' path = Inr p)"
proof -
  have a: "from_dict (JObj (to_dict p)) = Inr p"
    by (simp add: from_dict_def to_dict_def field_names_def dict_get_def)
  show ?thesis
    using a
    by (auto simp: save_profile_def load_profile_def open_write_def open_read_def bind_def
        split: option.splits fs_entry.splits)
qed

theorem profile_round_trip_witness:
  "files world ''style/profile.json'' \<noteq> Some Dir
   \<and> json_loads world (json_dumps world (JObj (to_dict profile0))) = Some (JObj (to_dict profile0))
   \<and> from_dict (JObj (to_dict profile0)) = Inr profile0
   \<and> (\<exists>w'. save_profile world profile0 ''style/profile.json'' = Inr w'
           \<and> load_profile w' ''style/profile.json'' = Inr profile0)"
  using profile_round_trip[of profile0 world "''style/profile.json''"] profile0_facts by blast

text \<open>
  C8. A source that exists and cannot be opened, here a directory, is not skipped: the
  analyzer tests \<open>path.exists()\<close> only, and the \<open>open\<close> of \<open>_load_image\<close> raises
  OSError out of \<open>analyze_style_images\<close>. So the call fails although the second source
  is readable, and with the directory alone the error is OSError, not the input error;
  with the readable source alone the analyzer returns.
\<close>

theorem analyze_unopenable_source:
  "dir_paths = [''style/old.jpg'', ''style/look2.png'']
   \<and> files chatty_world ''style/old.jpg'' = Some Dir
   \<and> files chatty_world ''style/look2.png'' = Some (File ''PNG'')
   \<and> analyze_style_images chatty_world dir_paths = Inl OSError
   \<and> analyze_style_images chatty_world [''style/old.jpg''] = Inl OSError
   \<and> analyze_style_images chatty_world [''style/look2.png''] = Inr unparsed_profile"
  using dir_paths_raise world_files(1,4) look2_alone by (simp add: dir_paths_def)

text \<open>
  What the analyzer does with sources that are missing or can be opened. An empty sequence
  raises the input error. Otherwise, when every path among the first ten is missing or a
  file that can be read: if all of them are missing the input error is raised, and if one
  can be read the model is called with the images of exactly the readable ones among the
  first ten, in order, followed by the prompt.
\<close>

theorem analyze_inputs:
  "analyze_style_images w [] = Inl (ValueError ''No images provided'')
   \<and> (image_paths \<noteq> [] \<longrightarrow> (\<forall>p \<in> set (take 10 image_paths). files w p \<noteq> Some Dir) \<longrightarrow>
        (if \<forall>p \<in> set (take 10 image_paths). files w p = None
         then analyze_style_images w image_paths = Inl (ValueError ''No valid images found'')
         else analyze_style_images w image_paths =
                bind (messages_create w
                        (List.map_filter (readable_image w) (take 10 image_paths) @ [Prompt []]))
                  (parse_profile_reply w)))"
proof (intro conjI impI)
  show "analyze_style_images w [] = Inl (ValueError ''No images provided'')"
    by (simp add: analyze_style_images_def)
next
  assume ne: "image_paths \<noteq> []" and nd: "\<forall>p \<in> set (take 10 image_paths). files w p \<noteq> Some Dir"
  have l: "load_images w (take 10 image_paths) = Inr (List.map_filter (readable_image w) (take 10 image_paths))"
    by (rule load_images_readable[OF nd])
  have e: "List.map_filter (readable_image w) (take 10 image_paths) = []
      \<longleftrightarrow> (\<forall>p \<in> set (take 10 image_paths). files w p = None)"
    unfolding map_filter_empty using nd readable_image_None by blast
  show "if \<forall>p \<in> set (take 10 image_paths). files w p = None
         then analyze_style_images w image_paths = Inl (ValueError ''No valid images found'')
         else analyze_style_images w image_paths =
                bind (messages_create w
                        (List.map_filter (readable_image w) (take 10 image_paths) @ [Prompt []]))
                  (parse_profile_reply w)"
    using ne l e by (simp add: analyze_style_images_def bind_def)
qed

theorem analyze_inputs_witness:
  "two_paths \<noteq> []
   \<and> files chatty_world ''style/missing.jpg'' = None
   \<and> files chatty_world ''style/look2.png'' = Some (File ''PNG'')
   \<and> List.map_filter (readable_image chatty_world) (take 10 two_paths) = [Image ''image/png'' ''UE5H'']
   \<and> analyze_style_images chatty_world two_paths =
        bind (messages_create chatty_world ([Image ''image/png'' ''UE5H''] @ [Prompt []]))
          (parse_profile_reply chatty_world)
   \<and> analyze_style_images chatty_world [''style/missing.jpg''] = Inl (ValueError ''No valid images found'')
   \<and> analyze_style_images chatty_world [] = Inl (ValueError ''No images provided'')"
proof -
  have nd: "\<forall>p \<in> set (take 10 two_paths). files chatty_world p \<noteq> Some Dir"
    using two_paths_facts(3) by (simp add: list_all_iff)
  have ex: "\<not> (\<forall>p \<in> set (take 10 two_paths). files chatty_world p = None)"
    using world_files(4) by (simp add: two_paths_def)
  have a: "analyze_style_images chatty_world two_paths =
        bind (messages_create chatty_world ([Image ''image/png'' ''UE5H''] @ [Prompt []]))
          (parse_profile_reply chatty_world)"
    using analyze_inputs[of chatty_world two_paths] two_paths_facts(1) nd ex
    unfolding two_paths_facts(2) by simp
  have b: "analyze_style_images chatty_world [''style/missing.jpg''] = Inl (ValueError ''No valid images found'')"
    using analyze_inputs[of chatty_world "[''style/missing.jpg'']"] world_files(3) by simp
  show ?thesis
    using a b analyze_inputs[of chatty_world two_paths] two_paths_facts(1,2) world_files(3,4) by simp
qed

text \<open>
  C9. When the images were loaded, the model replied, and the reply, cleaned of its
  fencing, does not parse as JSON, the analyzer returns the profile whose seven lists are
  empty and whose summary is the sentinel; the clean-up itself never raises.
\<close>

theorem analyze_unparsable_reply:
  assumes "image_paths \<noteq> []"
    and "load_images w (take 10 image_paths) = Inr content" and "content \<noteq> []"
    and "messages_create w (content @ [Prompt []]) = Inr response_text"
    and "\<forall>cleaned. strip_markdown response_text = Inr cleaned \<longrightarrow> json_loads w (py_strip cleaned) = None"
  shows "analyze_style_images w image_paths = Inr unparsed_profile
    \<and> unparsed_profile = \<lparr>color_palette = JArr [], preferred_styles = JArr [],
         silhouettes = JArr [], patterns = JArr [], materials = JArr [], aesthetics = JArr [],
         avoid = JArr [], summary = JStr ''Could not parse style profile''\<rparr>"
proof -
  obtain cleaned where c: "strip_markdown response_text = Inr cleaned"
    using strip_markdown_total by blast
  then have "json_loads w (py_strip cleaned) = None" using assms(5) by blast
  then have "parse_profile_reply w response_text = Inr unparsed_profile"
    using c by (simp add: parse_profile_reply_def bind_def)
  then show ?thesis
    using assms(1-4) by (simp add: analyze_style_images_def bind_def unparsed_profile_def)
qed

theorem analyze_unparsable_reply_witness:
  "two_paths \<noteq> []
   \<and> load_images chatty_world (take 10 two_paths) = Inr [Image ''image/png'' ''UE5H'']
   \<and> messages_create chatty_world ([Image ''image/png'' ''UE5H''] @ [Prompt []]) = Inr ''I see a warm, neutral palette.''
   \<and> strip_markdown ''I see a warm, neutral palette.'' = Inr ''I see a warm, neutral palette.''
   \<and> json_loads chatty_world (py_strip ''I see a warm, neutral palette.'') = None
   \<and> analyze_style_images chatty_world two_paths = Inr unparsed_profile
   \<and> summary unparsed_profile = JStr ''Could not parse style profile''"
proof -
  have h: "\<forall>cleaned. strip_markdown ''I see a warm, neutral palette.'' = Inr cleaned
      \<longrightarrow> json_loads chatty_world (py_strip cleaned) = None"
    using two_paths_facts(6,7) by simp
  have "analyze_style_images chatty_world two_paths = Inr unparsed_profile"
    using analyze_unparsable_reply[OF two_paths_facts(1) two_paths_facts(4) _ two_paths_facts(5) h]
    by simp
  then show ?thesis using two_paths_facts by (simp add: unparsed_profile_def)
qed

section \<open>Which failures stay inside\<close>













end
